theory Spec2Isabelle
  imports Main "HOL-Library.Sublist" "HOL-Library.AList"
begin

section \<open>Python values\<close>

text \<open>
  The text fields of a paper, the identifiers and the chat messages are Python \<open>str\<close>
  values on which the program only compares, concatenates and slices; they are modelled as
  the list of their code points, for code points below 256 (ASCII and Latin-1), so that
  \<open>length\<close> and \<open>take\<close> count what Python's \<open>len\<close> and slicing count. The one
  character of the source outside that range, the cross mark that starts the two chat
  failure messages, is spelled by its three UTF-8 bytes.

  A topic is lower-cased, which depends on the whole of Unicode: it is a \<open>ustr\<close>, the list
  of its code points, any code point. \<open>ustr_of\<close> reads a literal as one.
\<close>

type_synonym ustr = "nat list"

definition ustr_of :: "string \<Rightarrow> ustr" where
  "ustr_of s = map of_char s"

definition nl :: string where
  "nl = [CHR 0x0A]"

definition cross_mark :: string where
  "cross_mark = [CHR 0xE2, CHR 0x9D, CHR 0x8C]"

text \<open>
  \<open>str.lower()\<close> reads three columns of the Unicode character database, which is not part
  of the program: the full lower-case mapping of a code point (one to three code points),
  whether it is cased, and whether it is case-ignorable. They are the parameter \<open>db\<close>.
\<close>

record unicode_db =
  to_lower_full :: "nat \<Rightarrow> nat list"
  is_cased :: "nat \<Rightarrow> bool"
  is_case_ignorable :: "nat \<Rightarrow> bool"

text \<open>The capital sigma U+03A3 is the one code point lower-cased by context: it becomes
  the final sigma U+03C2 when, case-ignorable code points skipped, a cased code point
  stands before it and none after it, and the small sigma U+03C3 otherwise.\<close>

definition final_sigma :: "unicode_db \<Rightarrow> ustr \<Rightarrow> ustr \<Rightarrow> bool" where
  "final_sigma db before after =
     ((case dropWhile (is_case_ignorable db) (rev before) of
         [] \<Rightarrow> False
       | c # cs \<Rightarrow> is_cased db c)
      \<and> (case dropWhile (is_case_ignorable db) after of
            [] \<Rightarrow> True
          | c # cs \<Rightarrow> \<not> is_cased db c))"

fun lower_from :: "unicode_db \<Rightarrow> ustr \<Rightarrow> ustr \<Rightarrow> ustr" where
  "lower_from db before [] = []"
| "lower_from db before (c # after) =
     (if c = 0x3A3 then [if final_sigma db before after then 0x3C2 else 0x3C3]
      else to_lower_full db c)
     @ lower_from db (before @ [c]) after"

definition py_lower :: "unicode_db \<Rightarrow> ustr \<Rightarrow> ustr" where
  "py_lower db s = lower_from db [] s"

text \<open>\<open>s.replace(" ", "_")\<close>: the pattern is one character long, so the replacement is
  character by character.\<close>

definition py_replace_space :: "ustr \<Rightarrow> ustr" where
  "py_replace_space s = map (\<lambda>c. if c = 0x20 then 0x5F else c) s"

text \<open>
  \<open>os.fsencode\<close>: a path reaches the operating system as bytes, UTF-8 with the
  \<open>surrogateescape\<close> handler (U+DC80 to U+DCFF stand for the bytes 0x80 to 0xFF). A code
  point with no encoding (any other surrogate) is refused by every system call with a
  \<open>UnicodeEncodeError\<close>, a \<open>ValueError\<close>, at the very place where a NUL is refused with a
  \<open>ValueError\<close>; it is encoded as the byte 0, on which the calls below raise.
\<close>

definition utf8 :: "nat \<Rightarrow> string" where
  "utf8 c =
     (if c < 0x80 then [char_of c]
      else if c < 0x800 then [char_of (0xC0 + c div 0x40), char_of (0x80 + c mod 0x40)]
      else if 0xDC80 \<le> c \<and> c \<le> 0xDCFF then [char_of (c - 0xDC00)]
      else if 0xD800 \<le> c \<and> c \<le> 0xDFFF then [CHR 0x00]
      else if c < 0x10000
        then [char_of (0xE0 + c div 0x1000), char_of (0x80 + c div 0x40 mod 0x40),
              char_of (0x80 + c mod 0x40)]
      else if c < 0x110000
        then [char_of (0xF0 + c div 0x40000), char_of (0x80 + c div 0x1000 mod 0x40),
              char_of (0x80 + c div 0x40 mod 0x40), char_of (0x80 + c mod 0x40)]
      else [CHR 0x00])"

definition os_fsencode :: "ustr \<Rightarrow> string" where
  "os_fsencode s = concat (map utf8 s)"

text \<open>\<open>sep.join(xs)\<close>.\<close>

fun py_join :: "string \<Rightarrow> string list \<Rightarrow> string" where
  "py_join sep [] = []"
| "py_join sep [x] = x"
| "py_join sep (x # y # ys) = x @ sep @ py_join sep (y # ys)"

text \<open>The values \<open>json.dump\<close> writes and \<open>json.load\<close> reads. A \<open>JDict\<close> lists the
  items of a Python \<open>dict\<close> in insertion order; \<open>JNull\<close> is Python's \<open>None\<close>.
  \<open>json.load\<close> of what \<open>json.dump\<close> wrote is taken to be the value dumped, which holds
  for dictionaries with string keys over strings and lists of strings, the only values
  the program dumps.\<close>

datatype json =
    JNull
  | JBool bool
  | JNum int
  | JStr string
  | JList "json list"
  | JDict "(string \<times> json) list"

datatype exn =
    FileExistsError
  | FileNotFoundError
  | NotADirectoryError
  | IsADirectoryError
  | ValueError
  | OSError
  | JSONDecodeError
  | TypeError
  | KeyError
  | SearchException string

text \<open>\<open>d[k] = v\<close> on a dict: an existing key keeps its place and takes the new value, a
  new key goes to the end.\<close>

definition dict_setitem :: "(string \<times> json) list \<Rightarrow> string \<Rightarrow> json \<Rightarrow> (string \<times> json) list" where
  "dict_setitem d k v = AList.update k v d"

text \<open>\<open>k in x\<close> for a string \<open>k\<close>: key membership in a dict, element membership in a
  list, substring test in a string, \<open>TypeError\<close> on anything else.\<close>

fun py_contains :: "json \<Rightarrow> string \<Rightarrow> exn + bool" where
  "py_contains (JDict d) k = Inr (map_of d k \<noteq> None)"
| "py_contains (JList xs) k = Inr (JStr k \<in> set xs)"
| "py_contains (JStr s) k = Inr (sublist k s)"
| "py_contains JNull k = Inl TypeError"
| "py_contains (JBool b) k = Inl TypeError"
| "py_contains (JNum n) k = Inl TypeError"

text \<open>\<open>x[k]\<close> for a string \<open>k\<close>: the value under the key in a dict, \<open>KeyError\<close> when it
  is missing, \<open>TypeError\<close> on anything else.\<close>

fun py_getitem :: "json \<Rightarrow> string \<Rightarrow> exn + json" where
  "py_getitem (JDict d) k = (case map_of d k of Some v \<Rightarrow> Inr v | None \<Rightarrow> Inl KeyError)"
| "py_getitem (JList xs) k = Inl TypeError"
| "py_getitem (JStr s) k = Inl TypeError"
| "py_getitem JNull k = Inl TypeError"
| "py_getitem (JBool b) k = Inl TypeError"
| "py_getitem (JNum n) k = Inl TypeError"

section \<open>The file system and the user-facing error channel\<close>

text \<open>
  The file system is a map from resolved paths (the names from the root down) to nodes; a
  regular file holds either a JSON value or something \<open>open\<close> or \<open>json.load\<close> raises on
  (unreadable, empty, truncated). Paths are POSIX paths as the operating system receives
  them (bytes; \<open>os.path.join\<close> and the listing act on them as on the \<open>str\<close> they encode,
  the separator being ASCII), names are case-sensitive, and there are no symbolic links. \<open>st_errors\<close> collects the calls of \<open>st.error\<close>, oldest
  first.
\<close>

datatype file_content = Json json | Unloadable

datatype fnode = FDir | FFile file_content

datatype st_error = ErrorSearching exn | ErrorSaving exn | ErrorRetrieving exn

record world =
  fs :: "string list \<Rightarrow> fnode option"
  cwd :: "string list"
  st_errors :: "st_error list"

definition st_error :: "st_error \<Rightarrow> world \<Rightarrow> world" where
  "st_error e w = w\<lparr>st_errors := st_errors w @ [e]\<rparr>"

definition PAPER_DIR :: string where
  "PAPER_DIR = ''papers''"

text \<open>\<open>posixpath.join\<close> of two parts.\<close>

definition os_path_join :: "string \<Rightarrow> string \<Rightarrow> string" where
  "os_path_join a b =
     (if b \<noteq> [] \<and> hd b = CHR ''/'' then b
      else if a = [] \<or> last a = CHR ''/'' then a @ b
      else a @ ''/'' @ b)"

text \<open>The components of a path string, split at every slash.\<close>

fun split_sep :: "string \<Rightarrow> string list" where
  "split_sep [] = [[]]"
| "split_sep (c # cs) =
     (if c = CHR ''/'' then [] # split_sep cs
      else (case split_sep cs of
              [] \<Rightarrow> [[c]]
            | x # xs \<Rightarrow> (c # x) # xs))"

definition start_dir :: "world \<Rightarrow> string \<Rightarrow> string list" where
  "start_dir w p = (if p \<noteq> [] \<and> hd p = CHR ''/'' then [] else cwd w)"

text \<open>Path resolution over existing nodes: every component but the last must lead to a
  directory; an empty component and \<open>.\<close> stay, \<open>..\<close> goes to the parent (the root is its
  own parent).\<close>

fun walk :: "(string list \<Rightarrow> fnode option) \<Rightarrow> string list \<Rightarrow> string list \<Rightarrow> exn + string list" where
  "walk f cur [] = Inr cur"
| "walk f cur (c # cs) =
     (if f cur \<noteq> Some FDir then Inl NotADirectoryError
      else if c = [] \<or> c = ''.'' then walk f cur cs
      else if c = ''..'' then walk f (butlast cur) cs
      else (case f (cur @ [c]) of
              None \<Rightarrow> Inl FileNotFoundError
            | Some n \<Rightarrow> walk f (cur @ [c]) cs))"

definition resolve :: "world \<Rightarrow> string \<Rightarrow> exn + string list" where
  "resolve w p =
     (if CHR 0x00 \<in> set p then Inl ValueError
      else if p = [] then Inl FileNotFoundError
      else walk (fs w) (start_dir w p) (split_sep p))"

definition os_path_isdir :: "world \<Rightarrow> string \<Rightarrow> bool" where
  "os_path_isdir w p =
     (case resolve w p of Inl e \<Rightarrow> False | Inr q \<Rightarrow> fs w q = Some FDir)"

definition os_path_isfile :: "world \<Rightarrow> string \<Rightarrow> bool" where
  "os_path_isfile w p =
     (case resolve w p of Inl e \<Rightarrow> False
      | Inr q \<Rightarrow> (case fs w q of Some (FFile c) \<Rightarrow> True | _ \<Rightarrow> False))"

text \<open>\<open>os.listdir\<close> returns the names of a directory in an order the file system chooses;
  that answer is the argument \<open>ls\<close>, and \<open>listing_of\<close> says when it is one the file
  system can give.\<close>

definition os_listdir :: "world \<Rightarrow> string \<Rightarrow> string list \<Rightarrow> exn + string list" where
  "os_listdir w p ls =
     (case resolve w p of
        Inl e \<Rightarrow> Inl e
      | Inr q \<Rightarrow> (case fs w q of
                   Some FDir \<Rightarrow> Inr ls
                 | Some (FFile c) \<Rightarrow> Inl NotADirectoryError
                 | None \<Rightarrow> Inl FileNotFoundError))"

definition listing_of :: "world \<Rightarrow> string \<Rightarrow> string list \<Rightarrow> bool" where
  "listing_of w p ls =
     (case resolve w p of
        Inl e \<Rightarrow> False
      | Inr q \<Rightarrow> fs w q = Some FDir \<and> distinct ls
                 \<and> (\<forall>n. n \<in> set ls \<longleftrightarrow> fs w (q @ [n]) \<noteq> None))"

text \<open>\<open>with open(p, "r") as f: json.load(f)\<close>.\<close>

definition json_load :: "world \<Rightarrow> string \<Rightarrow> exn + json" where
  "json_load w p =
     (case resolve w p of
        Inl e \<Rightarrow> Inl e
      | Inr q \<Rightarrow> (case fs w q of
                   None \<Rightarrow> Inl FileNotFoundError
                 | Some FDir \<Rightarrow> Inl IsADirectoryError
                 | Some (FFile Unloadable) \<Rightarrow> Inl JSONDecodeError
                 | Some (FFile (Json j)) \<Rightarrow> Inr j))"

text \<open>
  Faults of the environment that the file system state does not decide (permissions, a
  full disk): the first \<open>mkdir\<close> of \<open>os.makedirs\<close> is refused, \<open>open\<close> is refused, or the
  write of \<open>json.dump\<close> breaks off after the file was opened and truncated.
\<close>

datatype io_fault = NoFault | MkdirFault | OpenFault | DumpFault

text \<open>\<open>os.makedirs(p, exist_ok=True)\<close>: walks the components and creates every missing
  directory on the way; a regular file in the way raises, and so does an end that is not
  a directory. The directories made before a raise stay.\<close>

fun mkdirs :: "io_fault \<Rightarrow> (string list \<Rightarrow> fnode option) \<Rightarrow> string list \<Rightarrow> string list
    \<Rightarrow> (string list \<Rightarrow> fnode option) \<times> exn option" where
  "mkdirs flt f cur [] = (if f cur = Some FDir then (f, None) else (f, Some FileExistsError))"
| "mkdirs flt f cur (c # cs) =
     (if CHR 0x00 \<in> set c then (f, Some ValueError)
      else if f cur \<noteq> Some FDir then (f, Some NotADirectoryError)
      else if c = [] \<or> c = ''.'' then mkdirs flt f cur cs
      else if c = ''..'' then mkdirs flt f (butlast cur) cs
      else (case f (cur @ [c]) of
              None \<Rightarrow> (if flt = MkdirFault then (f, Some OSError)
                       else mkdirs flt (f(cur @ [c] \<mapsto> FDir)) (cur @ [c]) cs)
            | Some FDir \<Rightarrow> mkdirs flt f (cur @ [c]) cs
            | Some (FFile x) \<Rightarrow>
                (f, Some (if cs = [] then FileExistsError else NotADirectoryError))))"

definition os_makedirs :: "io_fault \<Rightarrow> world \<Rightarrow> string \<Rightarrow> world \<times> exn option" where
  "os_makedirs flt w p =
     (if p = [] then (w, Some FileNotFoundError)
      else (case mkdirs flt (fs w) (start_dir w p) (split_sep p) of
              (f, r) \<Rightarrow> (w\<lparr>fs := f\<rparr>, r)))"

text \<open>\<open>with open(p, "w") as f: json.dump(v, f, indent=2)\<close>: the parent must resolve to
  a directory and the last component must not name one; the file is created or
  truncated at \<open>open\<close>, and holds \<open>v\<close> once the dump is through.\<close>

definition json_dump_to :: "io_fault \<Rightarrow> world \<Rightarrow> string \<Rightarrow> json \<Rightarrow> world \<times> exn option" where
  "json_dump_to flt w p v =
     (if CHR 0x00 \<in> set p then (w, Some ValueError)
      else if p = [] then (w, Some FileNotFoundError)
      else (case walk (fs w) (start_dir w p) (butlast (split_sep p)) of
              Inl e \<Rightarrow> (w, Some e)
            | Inr q \<Rightarrow>
                (let name = last (split_sep p) in
                 if fs w q \<noteq> Some FDir then (w, Some NotADirectoryError)
                 else if name = [] \<or> name = ''.'' \<or> name = ''..'' \<or> fs w (q @ [name]) = Some FDir
                   then (w, Some IsADirectoryError)
                 else if flt = OpenFault then (w, Some OSError)
                 else if flt = DumpFault
                   then (w\<lparr>fs := (fs w)(q @ [name] \<mapsto> FFile Unloadable)\<rparr>, Some OSError)
                 else (w\<lparr>fs := (fs w)(q @ [name] \<mapsto> FFile (Json v))\<rparr>, None))))"

section \<open>The research assistant\<close>

text \<open>One result of the arXiv client, with the attributes \<open>search_papers\<close> reads;
  \<open>res_published\<close> is \<open>str(paper.published.date())\<close>.\<close>

record arxiv_result =
  res_short_id :: string
  res_title :: string
  res_authors :: "string list"
  res_summary :: string
  res_pdf_url :: string
  res_published :: string
  res_categories :: "string list"
  res_primary_category :: string

text \<open>The dictionary \<open>paper_info\<close> of \<open>search_papers\<close>: nine fixed keys.\<close>

record paper =
  id_key :: string
  title :: string
  authors :: "string list"
  authors_str :: string
  summary :: string
  pdf_url :: string
  published :: string
  categories :: "string list"
  primary_category :: string

definition paper_info :: "arxiv_result \<Rightarrow> paper" where
  "paper_info r =
     \<lparr> id_key = res_short_id r,
       title = res_title r,
       authors = res_authors r,
       authors_str = py_join '', '' (res_authors r),
       summary = res_summary r,
       pdf_url = res_pdf_url r,
       published = res_published r,
       categories = res_categories r,
       primary_category = res_primary_category r \<rparr>"

text \<open>The value stored under a paper's id (lines 94-100).\<close>

definition persisted :: "paper \<Rightarrow> json" where
  "persisted p =
     JDict [(''title'', JStr (title p)),
            (''authors'', JList (map JStr (authors p))),
            (''summary'', JStr (summary p)),
            (''pdf_url'', JStr (pdf_url p)),
            (''published'', JStr (published p))]"

text \<open>The loop that fills \<open>papers_info\<close> (lines 92-100).\<close>

definition build_papers_info :: "paper list \<Rightarrow> (string \<times> json) list" where
  "build_papers_info papers_data =
     foldl (\<lambda>papers_info p. dict_setitem papers_info (id_key p) (persisted p)) [] papers_data"

text \<open>\<open>topic.lower().replace(" ", "_")\<close>, as the bytes of the directory name.\<close>

definition topic_dir :: "unicode_db \<Rightarrow> ustr \<Rightarrow> string" where
  "topic_dir db topic = os_fsencode (py_replace_space (py_lower db topic))"

definition topic_path :: "unicode_db \<Rightarrow> ustr \<Rightarrow> string" where
  "topic_path db topic = os_path_join PAPER_DIR (topic_dir db topic)"

definition topic_file_path :: "unicode_db \<Rightarrow> ustr \<Rightarrow> string" where
  "topic_file_path db topic = os_path_join (topic_path db topic) ''papers_info.json''"

text \<open>The body of the \<open>try\<close> of \<open>save_papers_to_file\<close>: the world it leaves and the
  exception it raised, if any.\<close>

definition save_body :: "unicode_db \<Rightarrow> io_fault \<Rightarrow> world \<Rightarrow> ustr \<Rightarrow> paper list
    \<Rightarrow> world \<times> exn option" where
  "save_body db flt w topic papers_data =
     (let path = topic_path db topic in
      case os_makedirs flt w path of
        (w1, Some e) \<Rightarrow> (w1, Some e)
      | (w1, None) \<Rightarrow>
          (let file_path = os_path_join path ''papers_info.json'';
               papers_info = build_papers_info papers_data
           in json_dump_to flt w1 file_path (JDict papers_info)))"

definition save_papers_to_file :: "unicode_db \<Rightarrow> io_fault \<Rightarrow> world \<Rightarrow> ustr \<Rightarrow> paper list
    \<Rightarrow> world" where
  "save_papers_to_file db flt w topic papers_data =
     (case save_body db flt w topic papers_data of
        (w1, None) \<Rightarrow> w1
      | (w1, Some e) \<Rightarrow> st_error (ErrorSaving e) w1)"

text \<open>One pass of the body of the \<open>for\<close> loop of \<open>get_paper_info\<close>, for one listed
  item: \<open>Inr (Some v)\<close> is \<open>return v\<close>, \<open>Inr None\<close> goes on to the next item, \<open>Inl e\<close>
  raises.\<close>

definition probe_item :: "world \<Rightarrow> string \<Rightarrow> string \<Rightarrow> exn + json option" where
  "probe_item w item paper_id =
     (let item_path = os_path_join PAPER_DIR item in
      if os_path_isdir w item_path then
        (let file_path = os_path_join item_path ''papers_info.json'' in
         if os_path_isfile w file_path then
           (case json_load w file_path of
              Inl e \<Rightarrow> Inl e
            | Inr papers_info \<Rightarrow>
                (case py_contains papers_info paper_id of
                   Inl e \<Rightarrow> Inl e
                 | Inr True \<Rightarrow>
                     (case py_getitem papers_info paper_id of
                        Inl e \<Rightarrow> Inl e
                      | Inr v \<Rightarrow> Inr (Some v))
                 | Inr False \<Rightarrow> Inr None))
         else Inr None)
      else Inr None)"

text \<open>The loop over the listed items; \<open>Inr JNull\<close> at the end is the \<open>return None\<close>
  after the loop.\<close>

fun scan_items :: "world \<Rightarrow> string list \<Rightarrow> string \<Rightarrow> exn + json" where
  "scan_items w [] paper_id = Inr JNull"
| "scan_items w (item # items) paper_id =
     (case probe_item w item paper_id of
        Inl e \<Rightarrow> Inl e
      | Inr (Some v) \<Rightarrow> Inr v
      | Inr None \<Rightarrow> scan_items w items paper_id)"

definition get_paper_info_body :: "world \<Rightarrow> string list \<Rightarrow> string \<Rightarrow> exn + json" where
  "get_paper_info_body w ls paper_id =
     (case os_listdir w PAPER_DIR ls of
        Inl e \<Rightarrow> Inl e
      | Inr items \<Rightarrow> scan_items w items paper_id)"

definition get_paper_info :: "world \<Rightarrow> string list \<Rightarrow> string \<Rightarrow> world \<times> json" where
  "get_paper_info w ls paper_id =
     (case get_paper_info_body w ls paper_id of
        Inr r \<Rightarrow> (w, r)
      | Inl e \<Rightarrow> (st_error (ErrorRetrieving e) w, JNull))"

text \<open>
  The arXiv client is a collaborator outside the program: for a query and a bound it
  yields some results and then either ends or raises. \<open>search_body\<close> is the body of the
  \<open>try\<close> of \<open>search_papers\<close>; \<open>save_papers_to_file\<close> has its own handler, so the only
  exception that reaches the handler of \<open>search_papers\<close> is the client's.
\<close>

type_synonym arxiv_client = "ustr \<Rightarrow> int \<Rightarrow> arxiv_result list \<times> exn option"

definition search_body :: "unicode_db \<Rightarrow> arxiv_client \<Rightarrow> io_fault \<Rightarrow> world \<Rightarrow> ustr \<Rightarrow> int
    \<Rightarrow> exn + world \<times> paper list" where
  "search_body db client flt w topic max_results =
     (case client topic max_results of
        (papers, Some e) \<Rightarrow> Inl e
      | (papers, None) \<Rightarrow>
          (let papers_data = map paper_info papers;
               w1 = save_papers_to_file db flt w topic papers_data
           in Inr (w1, papers_data)))"

definition search_papers :: "unicode_db \<Rightarrow> arxiv_client \<Rightarrow> io_fault \<Rightarrow> world \<Rightarrow> ustr \<Rightarrow> int
    \<Rightarrow> world \<times> paper list" where
  "search_papers db client flt w topic max_results =
     (case search_body db client flt w topic max_results of
        Inr r \<Rightarrow> r
      | Inl e \<Rightarrow> (st_error (ErrorSearching e) w, []))"

section \<open>The chat tab\<close>

text \<open>An entry of \<open>st.session_state.chat_history\<close>: a dict with the keys \<open>role\<close> and
  \<open>content\<close>.\<close>

record message =
  role :: string
  content :: string

text \<open>The session state the chat tab reads and writes. \<open>papers_data\<close> starts as an empty
  dict and is only ever replaced by a non-empty list (lines 198-199), so the empty list stands
  for the initial value.\<close>

record session =
  papers_data :: "paper list"
  chat_history :: "message list"

text \<open>The Anthropic client: \<open>None\<close> when it was not configured; otherwise
  \<open>messages.create\<close>, which for the composed message either raises an exception (given by
  its \<open>str\<close>) or returns the texts of the content blocks of the response.\<close>

type_synonym anthropic_client = "(string \<Rightarrow> string + string list) option"

definition not_configured_message :: string where
  "not_configured_message =
     cross_mark @ '' Anthropic API not configured. Please set ANTHROPIC_API_KEY in your .env file.''"

definition error_calling_claude :: "string \<Rightarrow> string" where
  "error_calling_claude e = cross_mark @ '' Error calling Claude: '' @ e"

definition full_message :: "string \<Rightarrow> string \<Rightarrow> string" where
  "full_message context msg = (if context \<noteq> [] then context @ nl @ nl @ msg else msg)"

definition chat_with_claude :: "anthropic_client \<Rightarrow> string \<Rightarrow> string \<Rightarrow> string" where
  "chat_with_claude anthropic msg context =
     (case anthropic of
        None \<Rightarrow> not_configured_message
      | Some create \<Rightarrow>
          (case create (full_message context msg) of
             Inl e \<Rightarrow> error_calling_claude e
           | Inr [] \<Rightarrow> error_calling_claude ''list index out of range''
           | Inr (block # blocks) \<Rightarrow> block))"

text \<open>The context of lines 239-244.\<close>

definition context_entry :: "paper \<Rightarrow> string" where
  "context_entry p =
     (''- '' @ title p @ '' by '' @ authors_str p @ nl)
     @ (''  Summary: '' @ take 200 (summary p) @ ''...'' @ nl @ nl)"

definition build_context :: "paper list \<Rightarrow> string" where
  "build_context ps =
     (if ps \<noteq> []
      then foldl (\<lambda>context p. context @ context_entry p)
             (''Here are some recent papers I found:'' @ nl @ nl) (take 3 ps)
      else [])"

text \<open>The handler of the chat input (lines 234-254): an empty prompt is no submission.\<close>

definition chat_input :: "anthropic_client \<Rightarrow> session \<Rightarrow> string \<Rightarrow> session" where
  "chat_input anthropic s prompt =
     (if prompt = [] then s
      else
        (let h1 = chat_history s @ [\<lparr>role = ''user'', content = prompt\<rparr>];
             context = build_context (papers_data s);
             response = chat_with_claude anthropic prompt context
         in s\<lparr>chat_history := h1 @ [\<lparr>role = ''assistant'', content = response\<rparr>]\<rparr>))"

definition clear_chat :: "session \<Rightarrow> session" where
  "clear_chat s = s\<lparr>chat_history := []\<rparr>"

text \<open>What the user does in the chat tab, each submission with the client's behaviour at
  that moment.\<close>

datatype chat_event = Submit anthropic_client string | ClearChat

fun chat_step :: "session \<Rightarrow> chat_event \<Rightarrow> session" where
  "chat_step s (Submit anthropic prompt) = chat_input anthropic s prompt"
| "chat_step s ClearChat = clear_chat s"

definition initial_session :: session where
  "initial_session = \<lparr>papers_data = [], chat_history = []\<rparr>"

text \<open>A log of user and assistant turns in strict alternation, starting with the user.\<close>

fun alternating :: "message list \<Rightarrow> bool" where
  "alternating [] = True"
| "alternating [m] = False"
| "alternating (m # m' # ms) =
     (role m = ''user'' \<and> role m' = ''assistant'' \<and> alternating ms)"

section \<open>Notions the statements use\<close>

text \<open>A directory name in the plain sense: one non-empty component that is neither \<open>.\<close>
  nor \<open>..\<close>.\<close>

definition plain_name :: "string \<Rightarrow> bool" where
  "plain_name k = (k \<noteq> [] \<and> CHR ''/'' \<notin> set k \<and> k \<noteq> ''.'' \<and> k \<noteq> ''..'')"



section \<open>Sample data\<close>

text \<open>
  The three columns of the Unicode character database for the code points below 256 and
  for the Greek letters U+0391 to U+03C9, as Python 3.11 has them. Any other code point is
  left as it is, neither cased nor case-ignorable: the sample stands for the database only
  on the code points named.
\<close>

definition sample_db :: unicode_db where
  "sample_db =
     \<lparr>to_lower_full = (\<lambda>c.
        if (0x41 \<le> c \<and> c \<le> 0x5A) \<or> (0xC0 \<le> c \<and> c \<le> 0xDE \<and> c \<noteq> 0xD7)
           \<or> (0x391 \<le> c \<and> c \<le> 0x3AB \<and> c \<noteq> 0x3A2)
        then [c + 0x20] else [c]),
      is_cased = (\<lambda>c.
        (0x41 \<le> c \<and> c \<le> 0x5A) \<or> (0x61 \<le> c \<and> c \<le> 0x7A)
        \<or> c = 0xAA \<or> c = 0xB5 \<or> c = 0xBA
        \<or> (0xC0 \<le> c \<and> c \<le> 0xFF \<and> c \<noteq> 0xD7 \<and> c \<noteq> 0xF7)
        \<or> (0x391 \<le> c \<and> c \<le> 0x3C9 \<and> c \<noteq> 0x3A2)),
      is_case_ignorable = (\<lambda>c.
        c \<in> {0x27, 0x2E, 0x3A, 0x5E, 0x60, 0xA8, 0xAD, 0xAF, 0xB4, 0xB7, 0xB8})\<rparr>"

text \<open>A working directory \<open>/app\<close> with an empty paper directory, as line 33 leaves it
  on a first start.\<close>

definition example_world :: world where
  "example_world =
     \<lparr>fs = [[] \<mapsto> FDir, [''app''] \<mapsto> FDir, [''app'', ''papers''] \<mapsto> FDir],
      cwd = [''app''], st_errors = []\<rparr>"

definition example_paper :: "string \<Rightarrow> string \<Rightarrow> string \<Rightarrow> paper" where
  "example_paper i t s =
     \<lparr>id_key = i, title = t, authors = [''A. Author''], authors_str = ''A. Author'',
      summary = s, pdf_url = ''u'', published = ''2021-06-02'',
      categories = [''quant-ph''], primary_category = ''quant-ph''\<rparr>"

definition example_result :: arxiv_result where
  "example_result =
     \<lparr>res_short_id = ''2106.01234'', res_title = ''T'', res_authors = [''A. Author''],
      res_summary = ''S'', res_pdf_url = ''u'', res_published = ''2021-06-02'',
      res_categories = [''quant-ph''], res_primary_category = ''quant-ph''\<rparr>"

text \<open>A client that finds one paper, and one that raises.\<close>

definition example_client :: arxiv_client where
  "example_client topic max_results = ([example_result], None)"

definition failing_client :: arxiv_client where
  "failing_client topic max_results = ([], Some (SearchException ''timed out''))"

section \<open>Facts about paths and the file system\<close>

lemma split_sep_nonempty: "split_sep p \<noteq> []"
  by (induction p) (auto split: list.splits)

lemma walk_append:
  "walk f cur (xs @ ys) = (case walk f cur xs of Inl e \<Rightarrow> Inl e | Inr q \<Rightarrow> walk f q ys)"
  by (induction xs arbitrary: cur) (auto split: option.splits)

lemma mkdirs_keeps:
  "mkdirs flt f cur cs = (f', r) \<Longrightarrow> f x \<noteq> None \<Longrightarrow> f' x = f x"
proof (induction cs arbitrary: f cur)
  case Nil
  then show ?case by (auto split: if_splits)
next
  case (Cons c cs)
  then show ?case
    by (auto split: if_splits option.splits fnode.splits)
qed

lemma mkdirs_walk:
  "mkdirs flt f cur cs = (f', None) \<Longrightarrow> \<exists>q. walk f' cur cs = Inr q \<and> f' q = Some FDir"
proof (induction cs arbitrary: f cur)
  case Nil
  then show ?case by (auto split: if_splits)
next
  case (Cons c cs)
  have keep: "f cur = Some FDir \<Longrightarrow> f' cur = Some FDir"
    using mkdirs_keeps [OF Cons.prems, of cur] by simp
  from Cons.prems have cur: "f cur = Some FDir"
    by (auto split: if_splits)
  show ?case
  proof (cases "c = [] \<or> c = ''.''")
    case True
    with Cons.prems cur have "mkdirs flt f cur cs = (f', None)" by (auto split: if_splits)
    from Cons.IH [OF this] True keep cur show ?thesis by auto
  next
    case False
    note ordinary = this
    show ?thesis
    proof (cases "c = ''..''")
      case True
      with Cons.prems cur ordinary have "mkdirs flt f (butlast cur) cs = (f', None)"
        by (auto split: if_splits)
      from Cons.IH [OF this] True keep cur show ?thesis by auto
    next
      case False
      show ?thesis
      proof (cases "f (cur @ [c])")
        case None
        with Cons.prems cur ordinary False
        have m: "mkdirs flt (f(cur @ [c] \<mapsto> FDir)) (cur @ [c]) cs = (f', None)"
          by (auto split: if_splits)
        have "f' (cur @ [c]) = Some FDir"
          using mkdirs_keeps [OF m, of "cur @ [c]"] by simp
        with Cons.IH [OF m] ordinary False keep cur show ?thesis by auto
      next
        case (Some n)
        with Cons.prems cur ordinary False
        have m: "mkdirs flt f (cur @ [c]) cs = (f', None)" and n: "n = FDir"
          by (auto split: if_splits fnode.splits)
        have "f' (cur @ [c]) = Some FDir"
          using mkdirs_keeps [OF m, of "cur @ [c]"] Some n by simp
        with Cons.IH [OF m] ordinary False keep cur show ?thesis by auto
      qed
    qed
  qed
qed

lemma walk_put_file:
  "f p \<noteq> Some FDir \<Longrightarrow> walk f cur cs = Inr q \<Longrightarrow> walk (f(p \<mapsto> FFile x)) cur cs = Inr q"
proof (induction cs arbitrary: cur)
  case Nil
  then show ?case by simp
next
  case (Cons c cs)
  then show ?case
    by (auto split: if_splits option.splits)
qed

lemma start_dir_cwd: "cwd w' = cwd w \<Longrightarrow> start_dir w' p = start_dir w p"
  by (simp add: start_dir_def)

lemma start_dir_fs_update [simp]: "start_dir (w\<lparr>fs := f\<rparr>) p = start_dir w p"
  by (simp add: start_dir_def)

lemma dump_ok:
  assumes "json_dump_to flt w p v = (w', None)"
  shows "\<exists>loc. fs w loc \<noteq> Some FDir \<and> w' = w\<lparr>fs := (fs w)(loc \<mapsto> FFile (Json v))\<rparr>
           \<and> resolve w' p = Inr loc"
proof -
  let ?cs = "split_sep p"
  let ?name = "last ?cs"
  from assms have nul: "CHR 0x00 \<notin> set p" and ne: "p \<noteq> []"
    by (auto simp: json_dump_to_def split: if_splits)
  from assms nul ne obtain q where q: "walk (fs w) (start_dir w p) (butlast ?cs) = Inr q"
    by (auto simp: json_dump_to_def split: if_splits sum.splits)
  from assms nul ne q have qd: "fs w q = Some FDir"
    and name: "?name \<noteq> []" "?name \<noteq> ''.''" "?name \<noteq> ''..''"
    and nd: "fs w (q @ [?name]) \<noteq> Some FDir"
    and w': "w' = w\<lparr>fs := (fs w)(q @ [?name] \<mapsto> FFile (Json v))\<rparr>"
    by (auto simp: json_dump_to_def Let_def split: if_splits)
  let ?f' = "(fs w)(q @ [?name] \<mapsto> FFile (Json v))"
  have cs: "?cs = butlast ?cs @ [?name]"
    using split_sep_nonempty [of p] by simp
  have "walk ?f' (start_dir w p) (butlast ?cs) = Inr q"
    using walk_put_file [OF nd q] .
  moreover have "walk ?f' q [?name] = Inr (q @ [?name])"
    using qd name by simp
  ultimately have "walk ?f' (start_dir w p) (butlast ?cs @ [?name]) = Inr (q @ [?name])"
    by (simp add: walk_append)
  with cs have "walk ?f' (start_dir w p) ?cs = Inr (q @ [?name])" by simp
  then have "resolve w' p = Inr (q @ [?name])"
    using nul ne w' by (simp add: resolve_def)
  with nd w' show ?thesis by blast
qed

lemma set_join_left: "hd b \<noteq> CHR ''/'' \<Longrightarrow> set a \<subseteq> set (os_path_join a b)"
  by (auto simp: os_path_join_def)

lemma save_ok:
  assumes "save_body db flt w topic ps = (w', None)"
  shows "os_path_isdir w' (topic_path db topic)"
    and "os_path_isfile w' (topic_file_path db topic)"
    and "json_load w' (topic_file_path db topic) = Inr (JDict (build_papers_info ps))"
proof -
  let ?path = "topic_path db topic"
  let ?fp = "topic_file_path db topic"
  from assms obtain w1 where mk: "os_makedirs flt w ?path = (w1, None)"
    and dump: "json_dump_to flt w1 ?fp (JDict (build_papers_info ps)) = (w', None)"
    by (auto simp: save_body_def Let_def topic_file_path_def split: prod.splits option.splits)
  from mk have pne: "?path \<noteq> []"
    and mk': "mkdirs flt (fs w) (start_dir w ?path) (split_sep ?path) = (fs w1, None)"
    and cwd1: "cwd w1 = cwd w"
    by (auto simp: os_makedirs_def split: if_splits prod.splits)
  from mkdirs_walk [OF mk'] obtain q0 where
    q0: "walk (fs w1) (start_dir w ?path) (split_sep ?path) = Inr q0" and q0d: "fs w1 q0 = Some FDir"
    by blast
  from dump_ok [OF dump] obtain loc where nd: "fs w1 loc \<noteq> Some FDir"
    and w': "w' = w1\<lparr>fs := (fs w1)(loc \<mapsto> FFile (Json (JDict (build_papers_info ps))))\<rparr>"
    and res: "resolve w' ?fp = Inr loc"
    by blast
  from res show "json_load w' ?fp = Inr (JDict (build_papers_info ps))"
    by (simp add: json_load_def w')
  from res show "os_path_isfile w' ?fp"
    by (simp add: os_path_isfile_def w')
  from res have "CHR 0x00 \<notin> set ?fp"
    by (auto simp: resolve_def split: if_splits)
  moreover have "set ?path \<subseteq> set ?fp"
    unfolding topic_file_path_def by (rule set_join_left) simp
  ultimately have nul: "CHR 0x00 \<notin> set ?path" by blast
  have "walk (fs w') (start_dir w' ?path) (split_sep ?path) = Inr q0"
    using walk_put_file [OF nd q0] w' start_dir_cwd [OF cwd1] by simp
  moreover have "fs w' q0 = Some FDir"
    using q0d nd w' by auto
  ultimately show "os_path_isdir w' ?path"
    using nul pne by (simp add: os_path_isdir_def resolve_def)
qed

lemma probe_after_save:
  assumes "save_body db flt w topic ps = (w', None)"
  shows "probe_item w' (topic_dir db topic) paper_id = Inr (map_of (build_papers_info ps) paper_id)"
  using save_ok [OF assms]
  by (auto simp: probe_item_def Let_def topic_path_def [symmetric] topic_file_path_def [symmetric]
      split: option.splits bool.splits)

lemma save_body_ok:
  assumes "snd (save_body db flt w topic ps) = None"
  shows "json_load (fst (save_body db flt w topic ps)) (topic_file_path db topic)
           = Inr (JDict (build_papers_info ps))"
    and "probe_item (fst (save_body db flt w topic ps)) (topic_dir db topic) paper_id
           = Inr (map_of (build_papers_info ps) paper_id)"
proof -
  from assms have "save_body db flt w topic ps = (fst (save_body db flt w topic ps), None)"
    by (metis prod.collapse)
  then show "json_load (fst (save_body db flt w topic ps)) (topic_file_path db topic)
           = Inr (JDict (build_papers_info ps))"
    and "probe_item (fst (save_body db flt w topic ps)) (topic_dir db topic) paper_id
           = Inr (map_of (build_papers_info ps) paper_id)"
    by (rule save_ok(3), rule probe_after_save)
qed

lemma probe_dict_bucket:
  assumes "os_path_isdir w (os_path_join PAPER_DIR item)"
    and "json_load w (os_path_join (os_path_join PAPER_DIR item) ''papers_info.json'') = Inr (JDict d)"
  shows "probe_item w item paper_id = Inr (map_of d paper_id)"
proof -
  from assms(2) have "os_path_isfile w (os_path_join (os_path_join PAPER_DIR item) ''papers_info.json'')"
    by (auto simp: json_load_def os_path_isfile_def split: sum.splits option.splits fnode.splits)
  with assms show ?thesis
    by (auto simp: probe_item_def Let_def split: option.splits bool.splits)
qed

lemma scan_first:
  "(\<forall>i\<in>set pre. probe_item w i pid = Inr None) \<Longrightarrow> scan_items w (pre @ rest) pid = scan_items w rest pid"
  by (induction pre) auto

lemma scan_none: "(\<forall>i\<in>set ls. probe_item w i pid = Inr None) \<Longrightarrow> scan_items w ls pid = Inr JNull"
  using scan_first [of ls w pid "[]"] by simp

lemma split_sep_plain: "CHR ''/'' \<notin> set a \<Longrightarrow> split_sep (a @ CHR ''/'' # b) = a # split_sep b"
  by (induction a) (auto split: list.splits)

lemma split_sep_single: "CHR ''/'' \<notin> set a \<Longrightarrow> split_sep a = [a]"
  by (induction a) (auto split: list.splits)

lemma join_plain: "plain_name k \<Longrightarrow> os_path_join PAPER_DIR k = ''papers/'' @ k"
  by (cases k) (auto simp: os_path_join_def PAPER_DIR_def plain_name_def)

lemma resolve_PAPER_DIR: "resolve w PAPER_DIR = walk (fs w) (cwd w) [''papers'']"
  by (simp add: resolve_def PAPER_DIR_def start_dir_def)

lemma plain_listed:
  assumes "plain_name k" and "os_path_isdir w (os_path_join PAPER_DIR k)" and "listing_of w PAPER_DIR ls"
  shows "k \<in> set ls"
proof -
  from assms(3) obtain q where q: "walk (fs w) (cwd w) [''papers''] = Inr q"
    and ls: "\<And>n. n \<in> set ls \<longleftrightarrow> fs w (q @ [n]) \<noteq> None"
    by (auto simp: listing_of_def resolve_PAPER_DIR split: sum.splits)
  have sp: "split_sep (''papers/'' @ k) = [''papers''] @ [k]"
    using assms(1) split_sep_plain [of "''papers''" k] split_sep_single [of k]
    by (simp add: plain_name_def)
  from assms(1,2) obtain q0 where "walk (fs w) (cwd w) (split_sep (''papers/'' @ k)) = Inr q0"
    by (auto simp: os_path_isdir_def resolve_def join_plain start_dir_def split: sum.splits if_splits)
  then have "walk (fs w) q [k] = Inr q0"
    unfolding sp walk_append using q by simp
  then have "fs w (q @ [k]) \<noteq> None"
    using assms(1) by (auto simp: plain_name_def split: if_splits option.splits)
  with ls show ?thesis by simp
qed

lemma listdir_of_listing: "listing_of w p ls \<Longrightarrow> os_listdir w p ls = Inr ls"
  by (auto simp: listing_of_def os_listdir_def split: sum.splits)

lemma save_body_errors: "st_errors (fst (save_body db flt w topic ps)) = st_errors w"
  by (auto simp: save_body_def os_makedirs_def json_dump_to_def Let_def split: prod.splits option.splits if_splits sum.splits)

lemma save_quiet:
  "st_errors (save_papers_to_file db flt w topic ps) = st_errors w
     \<longleftrightarrow> save_body db flt w topic ps = (save_papers_to_file db flt w topic ps, None)"
  using save_body_errors [of db flt w topic ps]
  by (auto simp: save_papers_to_file_def st_error_def split: prod.splits option.splits)

lemma split_sep_bucket:
  "plain_name k \<Longrightarrow> split_sep (''papers/'' @ k) = [''papers'', k]"
  "plain_name k \<Longrightarrow> split_sep (''papers/'' @ k @ ''/papers_info.json'') = [''papers'', k, ''papers_info.json'']"
  using split_sep_plain [of "''papers''" k] split_sep_single [of k]
    split_sep_plain [of "''papers''" "k @ ''/papers_info.json''"]
    split_sep_plain [of k "''papers_info.json''"]
  by (simp_all add: plain_name_def)

lemma paths_plain:
  assumes "plain_name (topic_dir db topic)"
  shows "topic_path db topic = ''papers/'' @ topic_dir db topic"
    and "topic_file_path db topic = ''papers/'' @ topic_dir db topic @ ''/papers_info.json''"
proof -
  show 1: "topic_path db topic = ''papers/'' @ topic_dir db topic"
    unfolding topic_path_def using assms by (rule join_plain)
  have "last (''papers/'' @ topic_dir db topic) \<noteq> CHR ''/''"
    using assms by (cases "topic_dir db topic" rule: rev_cases) (auto simp: plain_name_def)
  then show "topic_file_path db topic = ''papers/'' @ topic_dir db topic @ ''/papers_info.json''"
    unfolding topic_file_path_def 1 by (simp add: os_path_join_def)
qed

lemma save_plain:
  assumes k: "plain_name (topic_dir db topic)" "CHR 0x00 \<notin> set (topic_dir db topic)"
    and c: "fs w (cwd w) = Some FDir" "fs w (cwd w @ [''papers'']) = Some FDir"
    and d: "fs w (cwd w @ [''papers'', topic_dir db topic]) = None
             \<or> fs w (cwd w @ [''papers'', topic_dir db topic]) = Some FDir"
    and f: "fs w (cwd w @ [''papers'', topic_dir db topic, ''papers_info.json'']) \<noteq> Some FDir"
  shows "save_body db NoFault w topic ps =
     (w\<lparr>fs := (fs w)(cwd w @ [''papers'', topic_dir db topic] \<mapsto> FDir,
                      cwd w @ [''papers'', topic_dir db topic, ''papers_info.json'']
                         \<mapsto> FFile (Json (JDict (build_papers_info ps))))\<rparr>, None)"
proof -
  let ?k = "topic_dir db topic"
  let ?f1 = "(fs w)(cwd w @ [''papers'', ?k] \<mapsto> FDir)"
  from k have kn: "?k \<noteq> []" "?k \<noteq> ''.''" "?k \<noteq> ''..''"
    and ns: "CHR ''/'' \<notin> set ?k"
    by (auto simp: plain_name_def)
  note sp = split_sep_single [OF ns] split_sep_plain [OF ns]
  have mk: "os_makedirs NoFault w (''papers/'' @ ?k) = (w\<lparr>fs := ?f1\<rparr>, None)"
  proof (cases "fs w (cwd w @ [''papers'', ?k])")
    case None
    then show ?thesis
      using k kn c by (simp add: os_makedirs_def sp start_dir_def)
  next
    case (Some n)
    with d have "fs w (cwd w @ [''papers'', ?k]) = Some FDir" by simp
    moreover from this have "?f1 = fs w" by (auto simp: fun_eq_iff)
    ultimately show ?thesis
      using k kn c by (simp add: os_makedirs_def sp start_dir_def)
  qed
  have dump: "json_dump_to NoFault (w\<lparr>fs := ?f1\<rparr>) (''papers/'' @ ?k @ ''/papers_info.json'') v =
      (w\<lparr>fs := ?f1(cwd w @ [''papers'', ?k, ''papers_info.json''] \<mapsto> FFile (Json v))\<rparr>, None)" for v
    using k kn c f by (simp add: json_dump_to_def sp start_dir_def)
  show ?thesis
    unfolding save_body_def Let_def paths_plain(1) [OF k(1)]
    using mk dump paths_plain [OF k(1)]
    by (simp add: topic_file_path_def)
qed

lemma save_papers_plain:
  assumes "plain_name (topic_dir db topic)" "CHR 0x00 \<notin> set (topic_dir db topic)"
    and "fs w (cwd w) = Some FDir" "fs w (cwd w @ [''papers'']) = Some FDir"
    and "fs w (cwd w @ [''papers'', topic_dir db topic]) = None
             \<or> fs w (cwd w @ [''papers'', topic_dir db topic]) = Some FDir"
    and "fs w (cwd w @ [''papers'', topic_dir db topic, ''papers_info.json'']) \<noteq> Some FDir"
  shows "save_papers_to_file db NoFault w topic ps =
     w\<lparr>fs := (fs w)(cwd w @ [''papers'', topic_dir db topic] \<mapsto> FDir,
                      cwd w @ [''papers'', topic_dir db topic, ''papers_info.json'']
                         \<mapsto> FFile (Json (JDict (build_papers_info ps))))\<rparr>"
  unfolding save_papers_to_file_def save_plain [OF assms] by simp

section \<open>Facts about topic keys\<close>









section \<open>Facts about the bucket dictionary, the context and the chat log\<close>

lemma chat_input_history:
  "chat_history (chat_input a s p) =
     (if p = [] then chat_history s
      else chat_history s @ [\<lparr>role = ''user'', content = p\<rparr>,
             \<lparr>role = ''assistant'', content = chat_with_claude a p (build_context (papers_data s))\<rparr>])"
  by (simp add: chat_input_def Let_def)

lemma alternating_append2:
  "alternating h \<Longrightarrow> alternating (h @ [\<lparr>role = ''user'', content = p\<rparr>, \<lparr>role = ''assistant'', content = r\<rparr>])"
  by (induction h rule: alternating.induct) auto

lemma alternating_even: "alternating h \<Longrightarrow> even (length h)"
  by (induction h rule: alternating.induct) auto

lemma chat_step_alternating: "alternating (chat_history s) \<Longrightarrow> alternating (chat_history (chat_step s ev))"
  by (cases ev) (auto simp: chat_input_history alternating_append2 clear_chat_def)

lemma run_alternating: "alternating (chat_history s) \<Longrightarrow> alternating (chat_history (foldl chat_step s evs))"
  by (induction evs arbitrary: s) (auto simp: chat_step_alternating)

lemma dom_build: "fst ` set (foldl (\<lambda>d p. dict_setitem d (id_key p) (persisted p)) d0 ps) = fst ` set d0 \<union> id_key ` set ps"
  by (induction ps arbitrary: d0) (auto simp: dict_setitem_def dom_update)

lemma distinct_build: "distinct (map fst d0) \<Longrightarrow> distinct (map fst (foldl (\<lambda>d p. dict_setitem d (id_key p) (persisted p)) d0 ps))"
  by (induction ps arbitrary: d0) (auto simp: dict_setitem_def distinct_update)

lemma map_of_build:
  "map_of (foldl (\<lambda>d p. dict_setitem d (id_key p) (persisted p)) d0 ps) k =
     (case filter (\<lambda>q. id_key q = k) ps of [] \<Rightarrow> map_of d0 k | qs \<Rightarrow> Some (persisted (last qs)))"
  by (induction ps arbitrary: d0) (auto simp: dict_setitem_def update_conv' split: list.splits)

lemma set_update_subset: "set (AList.update k v al) \<subseteq> insert (k, v) (set al)"
  by (induction al) auto

lemma set_build:
  "set (foldl (\<lambda>d p. dict_setitem d (id_key p) (persisted p)) d0 ps)
     \<subseteq> set d0 \<union> (\<lambda>p. (id_key p, persisted p)) ` set ps"
proof (induction ps arbitrary: d0)
  case Nil
  then show ?case by simp
next
  case (Cons p ps)
  have "set (dict_setitem d0 (id_key p) (persisted p)) \<subseteq> insert (id_key p, persisted p) (set d0)"
    unfolding dict_setitem_def by (rule set_update_subset)
  with Cons.IH [of "dict_setitem d0 (id_key p) (persisted p)"] show ?case
    by auto
qed

lemma map_of_papers_info:
  "p \<in> set ps \<Longrightarrow> map_of (build_papers_info ps) (id_key p)
       = Some (persisted (last (filter (\<lambda>q. id_key q = id_key p) ps)))"
proof -
  assume "p \<in> set ps"
  then have "filter (\<lambda>q. id_key q = id_key p) ps \<noteq> []"
    by (auto simp: filter_empty_conv)
  then show ?thesis
    unfolding build_papers_info_def map_of_build by (simp split: list.splits)
qed

lemma map_of_papers_info_none:
  "k \<notin> id_key ` set ps \<Longrightarrow> map_of (build_papers_info ps) k = None"
proof -
  assume "k \<notin> id_key ` set ps"
  then have "filter (\<lambda>q. id_key q = k) ps = []"
    by (auto simp: filter_empty_conv)
  then show ?thesis
    unfolding build_papers_info_def map_of_build by simp
qed

lemma filter_distinct_id:
  "distinct (map id_key ps) \<Longrightarrow> p \<in> set ps \<Longrightarrow> filter (\<lambda>q. id_key q = id_key p) ps = [p]"
proof (induction ps)
  case Nil
  then show ?case by simp
next
  case (Cons a ps)
  show ?case
  proof (cases "a = p")
    case True
    with Cons.prems have "id_key p \<notin> id_key ` set ps" by simp
    then have "\<forall>q\<in>set ps. id_key q \<noteq> id_key p" by (metis imageI)
    then have "filter (\<lambda>q. id_key q = id_key p) ps = []" by (auto simp: filter_empty_conv)
    with True show ?thesis by simp
  next
    case False
    with Cons.prems have "p \<in> set ps" "id_key a \<noteq> id_key p" by auto
    with Cons show ?thesis by simp
  qed
qed

lemma context_foldl: "foldl (\<lambda>context p. context @ context_entry p) h ps = h @ concat (map context_entry ps)"
  by (induction ps arbitrary: h) auto

lemma build_context_eq:
  "ps \<noteq> [] \<Longrightarrow> build_context ps
     = (''Here are some recent papers I found:'' @ nl @ nl) @ concat (map context_entry (take 3 ps))"
  by (simp add: build_context_def context_foldl)

lemma entry_in_context:
  assumes "p \<in> set (take 3 ps)"
  shows "sublist (''  Summary: '' @ take 200 (summary p) @ ''...'' @ nl @ nl) (build_context ps)"
proof -
  from assms have ne: "ps \<noteq> []" by auto
  from assms obtain xs ys where sp: "take 3 ps = xs @ p # ys"
    by (auto dest: split_list)
  let ?line = "''  Summary: '' @ take 200 (summary p) @ ''...'' @ nl @ nl"
  have "build_context ps =
      ((''Here are some recent papers I found:'' @ nl @ nl) @ concat (map context_entry xs)
        @ (''- '' @ title p @ '' by '' @ authors_str p @ nl))
      @ ?line @ concat (map context_entry ys)"
    unfolding build_context_eq [OF ne] sp by (simp add: context_entry_def)
  then show ?thesis
    by (metis sublist_appendI)
qed

section \<open>Facts about the sample data\<close>

lemma topic_dir_a: "topic_dir sample_db (ustr_of ''a'') = ''a''" by code_simp

lemma topic_dir_b: "topic_dir sample_db (ustr_of ''b'') = ''b''" by code_simp

lemma topic_dir_tcp_ip: "topic_dir sample_db (ustr_of ''TCP/IP'') = ''tcp/ip''" by code_simp

lemma example_save_a:
  "snd (save_body sample_db NoFault example_world (ustr_of ''a'') [example_paper ''1'' ''T'' ''S'']) = None"
  by code_simp

lemma example_save_twice:
  "snd (save_body sample_db NoFault example_world (ustr_of ''a'')
     [example_paper ''x'' ''First'' ''S'', example_paper ''x'' ''Second'' ''S'']) = None"
  by code_simp


lemma example_open_fault:
  "snd (save_body sample_db OpenFault example_world (ustr_of ''a'') (map paper_info [example_result])) = Some OSError"
  by code_simp

lemma example_save_a_only:
  "save_papers_to_file sample_db NoFault example_world (ustr_of ''a'') ps =
     example_world\<lparr>fs := (fs example_world)([''app'', ''papers'', ''a''] \<mapsto> FDir,
        [''app'', ''papers'', ''a'', ''papers_info.json'']
           \<mapsto> FFile (Json (JDict (build_papers_info ps))))\<rparr>"
  using save_papers_plain [of sample_db "ustr_of ''a''" example_world ps]
  by (simp add: topic_dir_a plain_name_def example_world_def)

lemma example_listing_a:
  "listing_of (save_papers_to_file sample_db NoFault example_world (ustr_of ''a'') ps) PAPER_DIR [''a'']"
  unfolding example_save_a_only
  by (auto simp: listing_of_def resolve_PAPER_DIR example_world_def)

lemma example_save_b:
  "save_papers_to_file sample_db NoFault example_world (ustr_of ''b'') ps =
     example_world\<lparr>fs := (fs example_world)([''app'', ''papers'', ''b''] \<mapsto> FDir,
        [''app'', ''papers'', ''b'', ''papers_info.json'']
           \<mapsto> FFile (Json (JDict (build_papers_info ps))))\<rparr>"
  using save_papers_plain [of sample_db "ustr_of ''b''" example_world ps]
  by (simp add: topic_dir_b plain_name_def example_world_def)

lemma example_save_b_a:
  "save_papers_to_file sample_db NoFault (save_papers_to_file sample_db NoFault example_world (ustr_of ''b'') ps) (ustr_of ''a'') qs =
     example_world\<lparr>fs := (fs example_world)([''app'', ''papers'', ''b''] \<mapsto> FDir,
        [''app'', ''papers'', ''b'', ''papers_info.json'']
           \<mapsto> FFile (Json (JDict (build_papers_info ps))),
        [''app'', ''papers'', ''a''] \<mapsto> FDir,
        [''app'', ''papers'', ''a'', ''papers_info.json'']
           \<mapsto> FFile (Json (JDict (build_papers_info qs))))\<rparr>"
  unfolding example_save_b
  using save_papers_plain [of sample_db "ustr_of ''a''" "example_world\<lparr>fs := (fs example_world)([''app'', ''papers'', ''b''] \<mapsto> FDir,
        [''app'', ''papers'', ''b'', ''papers_info.json'']
           \<mapsto> FFile (Json (JDict (build_papers_info ps))))\<rparr>" qs]
  by (simp add: topic_dir_a plain_name_def example_world_def)

lemma example_listing_b_a:
  "listing_of (save_papers_to_file sample_db NoFault (save_papers_to_file sample_db NoFault example_world (ustr_of ''b'') ps) (ustr_of ''a'') qs)
     PAPER_DIR [''a'', ''b'']"
  unfolding example_save_b_a
  by (auto simp: listing_of_def resolve_PAPER_DIR example_world_def)

lemma example_listing_b_a_created:
  "listing_of (save_papers_to_file sample_db NoFault (save_papers_to_file sample_db NoFault example_world (ustr_of ''b'') ps) (ustr_of ''a'') qs)
     PAPER_DIR [''b'', ''a'']"
  unfolding example_save_b_a
  by (auto simp: listing_of_def resolve_PAPER_DIR example_world_def)

lemma example_save_broken:
  "save_papers_to_file sample_db DumpFault example_world (ustr_of ''a'') ps =
     example_world\<lparr>fs := (fs example_world)([''app'', ''papers'', ''a''] \<mapsto> FDir,
        [''app'', ''papers'', ''a'', ''papers_info.json''] \<mapsto> FFile Unloadable),
        st_errors := [ErrorSaving OSError]\<rparr>"
  by (simp add: save_papers_to_file_def save_body_def topic_path_def topic_dir_a
      os_path_join_def PAPER_DIR_def os_makedirs_def json_dump_to_def start_dir_def
      example_world_def st_error_def Let_def)

lemma example_listing_broken:
  "listing_of (save_papers_to_file sample_db DumpFault example_world (ustr_of ''a'') ps) PAPER_DIR [''a'']"
  unfolding example_save_broken
  by (auto simp: listing_of_def resolve_PAPER_DIR example_world_def)

lemma example_save_tcp_ip:
  "save_papers_to_file sample_db NoFault example_world (ustr_of ''TCP/IP'') ps =
     example_world\<lparr>fs := (fs example_world)([''app'', ''papers'', ''tcp''] \<mapsto> FDir,
        [''app'', ''papers'', ''tcp'', ''ip''] \<mapsto> FDir,
        [''app'', ''papers'', ''tcp'', ''ip'', ''papers_info.json'']
           \<mapsto> FFile (Json (JDict (build_papers_info ps))))\<rparr>"
  by (simp add: save_papers_to_file_def save_body_def topic_path_def topic_dir_tcp_ip
      os_path_join_def PAPER_DIR_def os_makedirs_def json_dump_to_def start_dir_def
      example_world_def Let_def)

text \<open>
  A topic whose directory name is not a plain name is saved out of the lookup's reach:
  the records of a search for TCP/IP go to \<open>papers/tcp/ip/papers_info.json\<close>; the listing
  of the paper directory names \<open>tcp\<close>, which has no bucket file of its own, and the
  lookup returns the not-found value for a record just saved.
\<close>

lemma nested_topic_is_not_found:
  "st_errors (save_papers_to_file sample_db NoFault example_world (ustr_of ''TCP/IP'') [example_paper ''1'' ''T'' ''S'']) = []
   \<and> listing_of (save_papers_to_file sample_db NoFault example_world (ustr_of ''TCP/IP'') [example_paper ''1'' ''T'' ''S''])
        PAPER_DIR [''tcp'']
   \<and> get_paper_info (save_papers_to_file sample_db NoFault example_world (ustr_of ''TCP/IP'') [example_paper ''1'' ''T'' ''S''])
        [''tcp''] (id_key (example_paper ''1'' ''T'' ''S''))
      = (save_papers_to_file sample_db NoFault example_world (ustr_of ''TCP/IP'') [example_paper ''1'' ''T'' ''S''], JNull)"
proof -
  let ?w = "save_papers_to_file sample_db NoFault example_world (ustr_of ''TCP/IP'') [example_paper ''1'' ''T'' ''S'']"
  have 1: "st_errors ?w = []"
    unfolding example_save_tcp_ip by (simp add: example_world_def)
  have 2: "listing_of ?w PAPER_DIR [''tcp'']"
    unfolding example_save_tcp_ip
    by (auto simp: listing_of_def resolve_PAPER_DIR example_world_def)
  have "probe_item ?w ''tcp'' (id_key (example_paper ''1'' ''T'' ''S'')) = Inr None"
    by code_simp
  then have "\<forall>i\<in>set [''tcp'']. probe_item ?w i (id_key (example_paper ''1'' ''T'' ''S'')) = Inr None"
    by simp
  then have "scan_items ?w [''tcp''] (id_key (example_paper ''1'' ''T'' ''S'')) = Inr JNull"
    by (rule scan_none)
  with listdir_of_listing [OF 2]
  have 3: "get_paper_info ?w [''tcp''] (id_key (example_paper ''1'' ''T'' ''S'')) = (?w, JNull)"
    by (simp add: get_paper_info_def get_paper_info_body_def)
  from 1 2 3 show ?thesis by blast
qed

section \<open>The claims\<close>

text \<open>
  C1, as stated, fails when the store's save fails: \<open>save_papers_to_file\<close> catches its own
  exception and reports it, so \<open>search_papers\<close> goes on to \<open>return papers_data\<close>. Here
  \<open>open\<close> is refused; the failure is reported and the one record found is returned, not
  the empty sequence.
\<close>

theorem search_keeps_records_when_save_fails:
  "snd (search_papers sample_db example_client OpenFault example_world (ustr_of ''a'') 5) = [paper_info example_result]
   \<and> snd (search_papers sample_db example_client OpenFault example_world (ustr_of ''a'') 5) \<noteq> []
   \<and> st_errors (fst (search_papers sample_db example_client OpenFault example_world (ustr_of ''a'') 5))
       = [ErrorSaving OSError]"
  by code_simp

text \<open>
  C1, amended. The search never raises past its boundary. When the search collaborator
  raises, it returns the empty sequence, reports the failure and leaves the store as it
  was. When the collaborator succeeds, it returns the normalized records in the order
  received, also when the store's save fails: a failing save is reported (one
  \<open>ErrorSaving\<close> entry) and the records are returned all the same; a save that raises
  nothing reports nothing.
\<close>

theorem search_never_raises:
  "(client topic max_results = (rs, Some e) \<longrightarrow>
      search_papers db client flt w topic max_results = (st_error (ErrorSearching e) w, [])
      \<and> st_errors (fst (search_papers db client flt w topic max_results))
          = st_errors w @ [ErrorSearching e])
   \<and> (client topic max_results = (rs, None) \<longrightarrow>
      search_papers db client flt w topic max_results
        = (save_papers_to_file db flt w topic (map paper_info rs), map paper_info rs)
      \<and> (\<forall>e. snd (save_body db flt w topic (map paper_info rs)) = Some e \<longrightarrow>
            st_errors (save_papers_to_file db flt w topic (map paper_info rs))
              = st_errors w @ [ErrorSaving e])
      \<and> (snd (save_body db flt w topic (map paper_info rs)) = None \<longrightarrow>
            st_errors (save_papers_to_file db flt w topic (map paper_info rs)) = st_errors w))"
proof -
  have 1: "client topic max_results = (rs, Some e) \<longrightarrow>
      search_papers db client flt w topic max_results = (st_error (ErrorSearching e) w, [])
      \<and> st_errors (fst (search_papers db client flt w topic max_results))
          = st_errors w @ [ErrorSearching e]"
    by (simp add: search_papers_def search_body_def st_error_def)
  have 2: "client topic max_results = (rs, None) \<longrightarrow>
      search_papers db client flt w topic max_results
        = (save_papers_to_file db flt w topic (map paper_info rs), map paper_info rs)"
    by (simp add: search_papers_def search_body_def Let_def)
  have 3: "\<forall>e. snd (save_body db flt w topic (map paper_info rs)) = Some e \<longrightarrow>
            st_errors (save_papers_to_file db flt w topic (map paper_info rs))
              = st_errors w @ [ErrorSaving e]"
    using save_body_errors [of db flt w topic "map paper_info rs"]
    by (auto simp: save_papers_to_file_def st_error_def split: prod.splits)
  have 4: "snd (save_body db flt w topic (map paper_info rs)) = None \<longrightarrow>
            st_errors (save_papers_to_file db flt w topic (map paper_info rs)) = st_errors w"
    using save_body_errors [of db flt w topic "map paper_info rs"]
    by (auto simp: save_papers_to_file_def split: prod.splits)
  from 1 2 3 4 show ?thesis by blast
qed

theorem search_never_raises_witness:
  "failing_client (ustr_of ''a'') 5 = ([], Some (SearchException ''timed out''))
   \<and> snd (search_papers sample_db failing_client NoFault example_world (ustr_of ''a'') 5) = []
   \<and> st_errors (fst (search_papers sample_db failing_client NoFault example_world (ustr_of ''a'') 5))
       = st_errors example_world @ [ErrorSearching (SearchException ''timed out'')]
   \<and> example_client (ustr_of ''a'') 5 = ([example_result], None)
   \<and> snd (save_body sample_db OpenFault example_world (ustr_of ''a'') (map paper_info [example_result])) = Some OSError
   \<and> snd (search_papers sample_db example_client OpenFault example_world (ustr_of ''a'') 5) = map paper_info [example_result]
   \<and> st_errors (fst (search_papers sample_db example_client OpenFault example_world (ustr_of ''a'') 5))
       = st_errors example_world @ [ErrorSaving OSError]"
proof -
  have f: "failing_client (ustr_of ''a'') 5 = ([], Some (SearchException ''timed out''))"
    by (simp add: failing_client_def)
  have g: "example_client (ustr_of ''a'') 5 = ([example_result], None)"
    by (simp add: example_client_def)
  note t1 = search_never_raises [of failing_client "ustr_of ''a''" 5 "[]"
      "SearchException ''timed out''" sample_db NoFault example_world]
  note t2 = search_never_raises [of example_client "ustr_of ''a''" 5 "[example_result]" _
      sample_db OpenFault example_world]
  from t1 f have 1: "snd (search_papers sample_db failing_client NoFault example_world (ustr_of ''a'') 5) = []"
    "st_errors (fst (search_papers sample_db failing_client NoFault example_world (ustr_of ''a'') 5))
       = st_errors example_world @ [ErrorSearching (SearchException ''timed out'')]"
    by (simp_all add: st_error_def)
  from t2 g example_open_fault
  have 2: "snd (search_papers sample_db example_client OpenFault example_world (ustr_of ''a'') 5) = map paper_info [example_result]"
    "st_errors (fst (search_papers sample_db example_client OpenFault example_world (ustr_of ''a'') 5))
       = st_errors example_world @ [ErrorSaving OSError]"
    by (simp_all add: st_error_def)
  from f g 1 2 example_open_fault show ?thesis by blast
qed

text \<open>
  C2, as stated, fails in two ways that follow from the design of the store. Two records
  of one sequence with the same identifier: the lookup returns the value of the later
  one, whose title is not the earlier one's. The same identifier in a bucket that is
  listed before the one just saved: the lookup returns the entry of the bucket listed
  first, whose title is not that of the record just saved.
\<close>

theorem round_trip_misses:
  "example_paper ''x'' ''First'' ''S''
      \<in> set [example_paper ''x'' ''First'' ''S'', example_paper ''x'' ''Second'' ''S'']
   \<and> st_errors (save_papers_to_file sample_db NoFault example_world (ustr_of ''a'')
         [example_paper ''x'' ''First'' ''S'', example_paper ''x'' ''Second'' ''S'']) = []
   \<and> listing_of (save_papers_to_file sample_db NoFault example_world (ustr_of ''a'')
         [example_paper ''x'' ''First'' ''S'', example_paper ''x'' ''Second'' ''S''])
        PAPER_DIR [''a'']
   \<and> snd (get_paper_info (save_papers_to_file sample_db NoFault example_world (ustr_of ''a'')
         [example_paper ''x'' ''First'' ''S'', example_paper ''x'' ''Second'' ''S''])
        [''a''] (id_key (example_paper ''x'' ''First'' ''S'')))
      = persisted (example_paper ''x'' ''Second'' ''S'')
   \<and> st_errors (save_papers_to_file sample_db NoFault
         (save_papers_to_file sample_db NoFault example_world (ustr_of ''b'') [example_paper ''x'' ''First'' ''S''])
         (ustr_of ''a'') [example_paper ''x'' ''Second'' ''S'']) = []
   \<and> listing_of (save_papers_to_file sample_db NoFault
         (save_papers_to_file sample_db NoFault example_world (ustr_of ''b'') [example_paper ''x'' ''First'' ''S''])
         (ustr_of ''a'') [example_paper ''x'' ''Second'' ''S''])
        PAPER_DIR [''b'', ''a'']
   \<and> snd (get_paper_info (save_papers_to_file sample_db NoFault
         (save_papers_to_file sample_db NoFault example_world (ustr_of ''b'') [example_paper ''x'' ''First'' ''S''])
         (ustr_of ''a'') [example_paper ''x'' ''Second'' ''S''])
        [''b'', ''a''] (id_key (example_paper ''x'' ''Second'' ''S'')))
      = persisted (example_paper ''x'' ''First'' ''S'')
   \<and> py_getitem (persisted (example_paper ''x'' ''First'' ''S'')) ''title'' = Inr (JStr ''First'')
   \<and> py_getitem (persisted (example_paper ''x'' ''Second'' ''S'')) ''title'' = Inr (JStr ''Second'')
   \<and> title (example_paper ''x'' ''First'' ''S'') = ''First''
   \<and> title (example_paper ''x'' ''Second'' ''S'') = ''Second''"
proof -
  let ?f = "example_paper ''x'' ''First'' ''S''"
  let ?s = "example_paper ''x'' ''Second'' ''S''"
  let ?w = "save_papers_to_file sample_db NoFault example_world (ustr_of ''a'') [?f, ?s]"
  let ?v = "save_papers_to_file sample_db NoFault (save_papers_to_file sample_db NoFault example_world (ustr_of ''b'') [?f]) (ustr_of ''a'') [?s]"
  have 1: "?f \<in> set [?f, ?s]" by simp
  have 2: "st_errors ?w = []" by code_simp
  have 3: "listing_of ?w PAPER_DIR [''a'']" by (rule example_listing_a)
  have 4: "snd (get_paper_info ?w [''a''] (id_key ?f)) = persisted ?s" by code_simp
  have 5: "st_errors ?v = []" by code_simp
  have 6: "listing_of ?v PAPER_DIR [''b'', ''a'']" by (rule example_listing_b_a_created)
  have 7: "snd (get_paper_info ?v [''b'', ''a''] (id_key ?s)) = persisted ?f" by code_simp
  have 8: "py_getitem (persisted ?f) ''title'' = Inr (JStr ''First'')"
    "py_getitem (persisted ?s) ''title'' = Inr (JStr ''Second'')"
    "title ?f = ''First''" "title ?s = ''Second''"
    by (simp_all add: persisted_def example_paper_def)
  from 1 2 3 4 5 6 7 8 show ?thesis by blast
qed

text \<open>
  C2, amended. After a save of a sequence of records that reports no error, under a
  topic whose directory name is a plain name, take any listing of the paper directory
  and a record r of the sequence such that the lookup passes over every item listed
  before the topic's directory (the item is no directory, has no bucket file, or its
  bucket file loads and does not hold r's identifier). Then the lookup of r's identifier
  returns the persisted value of the last record of the sequence that carries this
  identifier: r's own title, authors, summary, pdf_url and published whenever the
  identifiers of the sequence are distinct. (An item listed before that holds the
  identifier answers in its place, and one whose bucket file does not load ends the
  lookup with the not-found value, as C4 has it.)
\<close>

theorem save_then_find:
  assumes "st_errors (save_papers_to_file db flt w topic ps) = st_errors w"
    and "plain_name (topic_dir db topic)"
    and "listing_of (save_papers_to_file db flt w topic ps) PAPER_DIR ls"
    and "\<forall>item\<in>set (takeWhile (\<lambda>i. i \<noteq> topic_dir db topic) ls).
           probe_item (save_papers_to_file db flt w topic ps) item (id_key p) = Inr None"
    and "p \<in> set ps"
  shows "get_paper_info (save_papers_to_file db flt w topic ps) ls (id_key p)
           = (save_papers_to_file db flt w topic ps,
              persisted (last (filter (\<lambda>q. id_key q = id_key p) ps)))
         \<and> (distinct (map id_key ps) \<longrightarrow>
              get_paper_info (save_papers_to_file db flt w topic ps) ls (id_key p)
                = (save_papers_to_file db flt w topic ps, persisted p))"
proof -
  let ?w = "save_papers_to_file db flt w topic ps"
  let ?v = "persisted (last (filter (\<lambda>q. id_key q = id_key p) ps))"
  from assms(1) have sb: "save_body db flt w topic ps = (?w, None)"
    by (simp add: save_quiet)
  from save_ok(1) [OF sb] have "os_path_isdir ?w (os_path_join PAPER_DIR (topic_dir db topic))"
    by (simp add: topic_path_def)
  then have "topic_dir db topic \<in> set ls"
    using plain_listed [OF assms(2) _ assms(3)] by blast
  then obtain pre post where ls: "ls = pre @ topic_dir db topic # post"
    and pre: "topic_dir db topic \<notin> set pre"
    by (auto dest: split_list_first)
  from pre have "takeWhile (\<lambda>i. i \<noteq> topic_dir db topic) ls = pre"
    unfolding ls by (induction pre) auto
  with assms(4) have skip: "\<forall>i\<in>set pre. probe_item ?w i (id_key p) = Inr None"
    by simp
  have "probe_item ?w (topic_dir db topic) (id_key p) = Inr (Some ?v)"
    using probe_after_save [OF sb] map_of_papers_info [OF assms(5)] by simp
  then have "scan_items ?w (topic_dir db topic # post) (id_key p) = Inr ?v"
    by simp
  with scan_first [OF skip, of "topic_dir db topic # post"] ls
  have "scan_items ?w ls (id_key p) = Inr ?v"
    by simp
  with listdir_of_listing [OF assms(3)]
  have 1: "get_paper_info ?w ls (id_key p) = (?w, ?v)"
    by (simp add: get_paper_info_def get_paper_info_body_def)
  have 2: "distinct (map id_key ps) \<longrightarrow> get_paper_info ?w ls (id_key p) = (?w, persisted p)"
    using 1 filter_distinct_id [OF _ assms(5)] by simp
  from 1 2 show ?thesis by blast
qed

theorem save_then_find_witness:
  "st_errors (save_papers_to_file sample_db NoFault
       (save_papers_to_file sample_db NoFault example_world (ustr_of ''b'') [example_paper ''x'' ''First'' ''S''])
       (ustr_of ''a'') [example_paper ''y'' ''Other'' ''S''])
     = st_errors (save_papers_to_file sample_db NoFault example_world (ustr_of ''b'') [example_paper ''x'' ''First'' ''S''])
   \<and> plain_name (topic_dir sample_db (ustr_of ''a''))
   \<and> listing_of (save_papers_to_file sample_db NoFault
       (save_papers_to_file sample_db NoFault example_world (ustr_of ''b'') [example_paper ''x'' ''First'' ''S''])
       (ustr_of ''a'') [example_paper ''y'' ''Other'' ''S'']) PAPER_DIR [''b'', ''a'']
   \<and> takeWhile (\<lambda>i. i \<noteq> topic_dir sample_db (ustr_of ''a'')) [''b'', ''a''] = [''b'']
   \<and> probe_item (save_papers_to_file sample_db NoFault
       (save_papers_to_file sample_db NoFault example_world (ustr_of ''b'') [example_paper ''x'' ''First'' ''S''])
       (ustr_of ''a'') [example_paper ''y'' ''Other'' ''S'']) ''b'' (id_key (example_paper ''y'' ''Other'' ''S''))
      = Inr None
   \<and> example_paper ''y'' ''Other'' ''S'' \<in> set [example_paper ''y'' ''Other'' ''S'']
   \<and> distinct (map id_key [example_paper ''y'' ''Other'' ''S''])
   \<and> snd (get_paper_info (save_papers_to_file sample_db NoFault
       (save_papers_to_file sample_db NoFault example_world (ustr_of ''b'') [example_paper ''x'' ''First'' ''S''])
       (ustr_of ''a'') [example_paper ''y'' ''Other'' ''S'']) [''b'', ''a'']
         (id_key (example_paper ''y'' ''Other'' ''S'')))
      = persisted (example_paper ''y'' ''Other'' ''S'')"
proof -
  let ?w = "save_papers_to_file sample_db NoFault example_world (ustr_of ''b'') [example_paper ''x'' ''First'' ''S'']"
  let ?p = "example_paper ''y'' ''Other'' ''S''"
  let ?w' = "save_papers_to_file sample_db NoFault ?w (ustr_of ''a'') [?p]"
  have 1: "st_errors ?w' = st_errors ?w"
    unfolding example_save_b_a unfolding example_save_b by simp
  have 2: "plain_name (topic_dir sample_db (ustr_of ''a''))"
    by (simp add: topic_dir_a plain_name_def)
  have 3: "listing_of ?w' PAPER_DIR [''b'', ''a'']"
    by (rule example_listing_b_a_created)
  have t: "takeWhile (\<lambda>i. i \<noteq> topic_dir sample_db (ustr_of ''a'')) [''b'', ''a''] = [''b'']"
    by (simp add: topic_dir_a)
  have b: "probe_item ?w' ''b'' (id_key ?p) = Inr None"
    by code_simp
  from t b have 4: "\<forall>item\<in>set (takeWhile (\<lambda>i. i \<noteq> topic_dir sample_db (ustr_of ''a'')) [''b'', ''a'']).
           probe_item ?w' item (id_key ?p) = Inr None"
    by simp
  have 5: "?p \<in> set [?p]" by simp
  have 6: "distinct (map id_key [?p])" by simp
  from save_then_find [OF 1 2 3 4 5] 6
  have "get_paper_info ?w' [''b'', ''a''] (id_key ?p) = (?w', persisted ?p)"
    by blast
  then have 7: "snd (get_paper_info ?w' [''b'', ''a''] (id_key ?p)) = persisted ?p"
    by simp
  from 1 2 3 t b 5 6 7 show ?thesis by blast
qed

text \<open>
  C3. When a save of the sequence A under a topic is followed by a save of the sequence
  B under the same topic, and the second save reports no error, the topic's bucket file
  holds the dictionary built from B alone: the bucket answers for an identifier what B's
  dictionary holds for it, so every record of B is found (the last one carrying its
  identifier), and no record of A whose identifier is not in B is found there.
\<close>

theorem save_overwrites_bucket:
  assumes "st_errors (save_papers_to_file db f2 (save_papers_to_file db f1 w topic as) topic bs)
             = st_errors (save_papers_to_file db f1 w topic as)"
  shows "json_load (save_papers_to_file db f2 (save_papers_to_file db f1 w topic as) topic bs)
             (topic_file_path db topic)
           = Inr (JDict (build_papers_info bs))
         \<and> probe_item (save_papers_to_file db f2 (save_papers_to_file db f1 w topic as) topic bs)
             (topic_dir db topic) paper_id
           = Inr (map_of (build_papers_info bs) paper_id)
         \<and> (\<forall>a\<in>set as. id_key a \<notin> id_key ` set bs \<longrightarrow>
              probe_item (save_papers_to_file db f2 (save_papers_to_file db f1 w topic as) topic bs)
                (topic_dir db topic) (id_key a) = Inr None)
         \<and> (\<forall>b\<in>set bs.
              probe_item (save_papers_to_file db f2 (save_papers_to_file db f1 w topic as) topic bs)
                (topic_dir db topic) (id_key b)
              = Inr (Some (persisted (last (filter (\<lambda>q. id_key q = id_key b) bs)))))"
proof -
  let ?w1 = "save_papers_to_file db f1 w topic as"
  let ?w2 = "save_papers_to_file db f2 ?w1 topic bs"
  from assms have sb: "save_body db f2 ?w1 topic bs = (?w2, None)"
    by (simp add: save_quiet)
  have 1: "json_load ?w2 (topic_file_path db topic) = Inr (JDict (build_papers_info bs))"
    using sb by (rule save_ok(3))
  have 2: "probe_item ?w2 (topic_dir db topic) k = Inr (map_of (build_papers_info bs) k)" for k
    using sb by (rule probe_after_save)
  have 3: "\<forall>a\<in>set as. id_key a \<notin> id_key ` set bs \<longrightarrow>
              probe_item ?w2 (topic_dir db topic) (id_key a) = Inr None"
    by (simp add: 2 map_of_papers_info_none)
  have 4: "\<forall>b\<in>set bs. probe_item ?w2 (topic_dir db topic) (id_key b)
              = Inr (Some (persisted (last (filter (\<lambda>q. id_key q = id_key b) bs))))"
    by (simp add: 2 map_of_papers_info)
  from 1 2 3 4 show ?thesis by blast
qed

theorem save_overwrites_bucket_witness:
  "st_errors (save_papers_to_file sample_db NoFault
       (save_papers_to_file sample_db NoFault example_world (ustr_of ''a'') [example_paper ''1'' ''Old'' ''S''])
       (ustr_of ''a'') [example_paper ''2'' ''New'' ''S''])
     = st_errors (save_papers_to_file sample_db NoFault example_world (ustr_of ''a'') [example_paper ''1'' ''Old'' ''S''])
   \<and> example_paper ''1'' ''Old'' ''S'' \<in> set [example_paper ''1'' ''Old'' ''S'']
   \<and> id_key (example_paper ''1'' ''Old'' ''S'') \<notin> id_key ` set [example_paper ''2'' ''New'' ''S'']
   \<and> probe_item (save_papers_to_file sample_db NoFault
       (save_papers_to_file sample_db NoFault example_world (ustr_of ''a'') [example_paper ''1'' ''Old'' ''S''])
       (ustr_of ''a'') [example_paper ''2'' ''New'' ''S'']) (topic_dir sample_db (ustr_of ''a'')) ''1''
      = Inr None
   \<and> probe_item (save_papers_to_file sample_db NoFault
       (save_papers_to_file sample_db NoFault example_world (ustr_of ''a'') [example_paper ''1'' ''Old'' ''S''])
       (ustr_of ''a'') [example_paper ''2'' ''New'' ''S'']) (topic_dir sample_db (ustr_of ''a'')) ''2''
      = Inr (Some (persisted (example_paper ''2'' ''New'' ''S'')))"
proof -
  let ?a = "example_paper ''1'' ''Old'' ''S''"
  let ?b = "example_paper ''2'' ''New'' ''S''"
  let ?w1 = "save_papers_to_file sample_db NoFault example_world (ustr_of ''a'') [?a]"
  let ?w2 = "save_papers_to_file sample_db NoFault ?w1 (ustr_of ''a'') [?b]"
  have h: "st_errors ?w2 = st_errors ?w1"
    by code_simp
  have i: "id_key ?a = ''1''" "id_key ?b = ''2''"
    by (simp_all add: example_paper_def)
  have m: "?a \<in> set [?a]" "?b \<in> set [?b]" by simp_all
  have n: "id_key ?a \<notin> id_key ` set [?b]" by (simp add: i)
  note t = save_overwrites_bucket [OF h]
  from t m(1) n have "probe_item ?w2 (topic_dir sample_db (ustr_of ''a'')) (id_key ?a) = Inr None"
    by blast
  then have 1: "probe_item ?w2 (topic_dir sample_db (ustr_of ''a'')) ''1'' = Inr None"
    by (simp add: i)
  from t m(2) have "probe_item ?w2 (topic_dir sample_db (ustr_of ''a'')) (id_key ?b)
      = Inr (Some (persisted (last (filter (\<lambda>q. id_key q = id_key ?b) [?b]))))"
    by blast
  then have 2: "probe_item ?w2 (topic_dir sample_db (ustr_of ''a'')) ''2'' = Inr (Some (persisted ?b))"
    by (simp add: i)
  from h m(1) n 1 2 show ?thesis by blast
qed

text \<open>
  C4, as stated, fails on the order of enumeration: the buckets are visited in the order
  \<open>os.listdir\<close> returns the directory names, which is the file system's, not the order
  of the searches. Topic b is searched first and topic a second, each finding a paper
  with the identifier x; the file system lists a before b, and the lookup returns the
  entry of a, the bucket searched last.
\<close>

theorem lookup_follows_listing_order:
  "listing_of
     (save_papers_to_file sample_db NoFault
        (save_papers_to_file sample_db NoFault example_world (ustr_of ''b'') [example_paper ''x'' ''First'' ''S''])
        (ustr_of ''a'') [example_paper ''x'' ''Second'' ''S''])
     PAPER_DIR [''a'', ''b'']
   \<and> probe_item
       (save_papers_to_file sample_db NoFault
          (save_papers_to_file sample_db NoFault example_world (ustr_of ''b'') [example_paper ''x'' ''First'' ''S''])
          (ustr_of ''a'') [example_paper ''x'' ''Second'' ''S''])
       ''b'' ''x''
      = Inr (Some (persisted (example_paper ''x'' ''First'' ''S'')))
   \<and> snd (get_paper_info
       (save_papers_to_file sample_db NoFault
          (save_papers_to_file sample_db NoFault example_world (ustr_of ''b'') [example_paper ''x'' ''First'' ''S''])
          (ustr_of ''a'') [example_paper ''x'' ''Second'' ''S''])
       [''a'', ''b''] ''x'')
      = persisted (example_paper ''x'' ''Second'' ''S'')
   \<and> persisted (example_paper ''x'' ''Second'' ''S'') \<noteq> persisted (example_paper ''x'' ''First'' ''S'')"
proof -
  let ?w = "save_papers_to_file sample_db NoFault
          (save_papers_to_file sample_db NoFault example_world (ustr_of ''b'') [example_paper ''x'' ''First'' ''S''])
          (ustr_of ''a'') [example_paper ''x'' ''Second'' ''S'']"
  have 1: "listing_of ?w PAPER_DIR [''a'', ''b'']"
    by (rule example_listing_b_a)
  have 2: "probe_item ?w ''b'' ''x'' = Inr (Some (persisted (example_paper ''x'' ''First'' ''S'')))"
    by code_simp
  have 3: "snd (get_paper_info ?w [''a'', ''b''] ''x'') = persisted (example_paper ''x'' ''Second'' ''S'')"
    by code_simp
  have 4: "persisted (example_paper ''x'' ''Second'' ''S'') \<noteq> persisted (example_paper ''x'' ''First'' ''S'')"
    by (simp add: persisted_def example_paper_def)
  from 1 2 3 4 show ?thesis by blast
qed

text \<open>
  C4, amended. The lookup has no index: it visits the buckets in the order in which the
  listing of the paper directory names them. It returns the entry of the first listed
  bucket that holds the identifier, given that the items listed before it are passed
  over, and the not-found value when every listed item is passed over. A listed item
  that is a directory whose bucket file loads as a dictionary answers with that
  dictionary's entry for the identifier; an item that is not a directory or has no
  bucket file is passed over; an item on which the pass raises (a bucket file that does
  not load) ends the scan with a report and the not-found value.
\<close>

theorem first_listed_match:
  "listing_of w PAPER_DIR ls \<Longrightarrow>
     (ls = pre @ item # post
        \<and> (\<forall>i\<in>set pre. probe_item w i paper_id = Inr None)
        \<and> probe_item w item paper_id = Inr (Some v)
      \<longrightarrow> get_paper_info w ls paper_id = (w, v))
     \<and> ((\<forall>i\<in>set ls. probe_item w i paper_id = Inr None)
      \<longrightarrow> get_paper_info w ls paper_id = (w, JNull))
     \<and> (ls = pre @ item # post
        \<and> (\<forall>i\<in>set pre. probe_item w i paper_id = Inr None)
        \<and> probe_item w item paper_id = Inl e
      \<longrightarrow> get_paper_info w ls paper_id = (st_error (ErrorRetrieving e) w, JNull))
     \<and> (os_path_isdir w (os_path_join PAPER_DIR item)
        \<and> json_load w (os_path_join (os_path_join PAPER_DIR item) ''papers_info.json'')
            = Inr (JDict d)
      \<longrightarrow> probe_item w item paper_id = Inr (map_of d paper_id))
     \<and> (\<not> os_path_isdir w (os_path_join PAPER_DIR item)
        \<or> \<not> os_path_isfile w (os_path_join (os_path_join PAPER_DIR item) ''papers_info.json'')
      \<longrightarrow> probe_item w item paper_id = Inr None)"
proof -
  assume l: "listing_of w PAPER_DIR ls"
  then have ld: "os_listdir w PAPER_DIR ls = Inr ls"
    by (rule listdir_of_listing)
  have 1: "ls = pre @ item # post
        \<and> (\<forall>i\<in>set pre. probe_item w i paper_id = Inr None)
        \<and> probe_item w item paper_id = Inr (Some v)
      \<longrightarrow> get_paper_info w ls paper_id = (w, v)"
  proof
    assume a: "ls = pre @ item # post
        \<and> (\<forall>i\<in>set pre. probe_item w i paper_id = Inr None)
        \<and> probe_item w item paper_id = Inr (Some v)"
    then have "scan_items w ls paper_id = scan_items w (item # post) paper_id"
      using scan_first [of pre w paper_id "item # post"] by simp
    also have "\<dots> = Inr v" using a by simp
    finally show "get_paper_info w ls paper_id = (w, v)"
      using ld by (simp add: get_paper_info_def get_paper_info_body_def)
  qed
  have 2: "(\<forall>i\<in>set ls. probe_item w i paper_id = Inr None)
      \<longrightarrow> get_paper_info w ls paper_id = (w, JNull)"
    using ld scan_none [of ls w paper_id]
    by (simp add: get_paper_info_def get_paper_info_body_def)
  have 5: "ls = pre @ item # post
        \<and> (\<forall>i\<in>set pre. probe_item w i paper_id = Inr None)
        \<and> probe_item w item paper_id = Inl e
      \<longrightarrow> get_paper_info w ls paper_id = (st_error (ErrorRetrieving e) w, JNull)"
  proof
    assume a: "ls = pre @ item # post
        \<and> (\<forall>i\<in>set pre. probe_item w i paper_id = Inr None)
        \<and> probe_item w item paper_id = Inl e"
    then have "scan_items w ls paper_id = scan_items w (item # post) paper_id"
      using scan_first [of pre w paper_id "item # post"] by simp
    also have "\<dots> = Inl e" using a by simp
    finally show "get_paper_info w ls paper_id = (st_error (ErrorRetrieving e) w, JNull)"
      using ld by (simp add: get_paper_info_def get_paper_info_body_def)
  qed
  have 3: "os_path_isdir w (os_path_join PAPER_DIR item)
        \<and> json_load w (os_path_join (os_path_join PAPER_DIR item) ''papers_info.json'')
            = Inr (JDict d)
      \<longrightarrow> probe_item w item paper_id = Inr (map_of d paper_id)"
    using probe_dict_bucket by blast
  have 4: "\<not> os_path_isdir w (os_path_join PAPER_DIR item)
        \<or> \<not> os_path_isfile w (os_path_join (os_path_join PAPER_DIR item) ''papers_info.json'')
      \<longrightarrow> probe_item w item paper_id = Inr None"
    by (auto simp: probe_item_def Let_def)
  from 1 2 3 4 5 show ?thesis by blast
qed

theorem first_listed_match_witness:
  "listing_of
     (save_papers_to_file sample_db NoFault
        (save_papers_to_file sample_db NoFault example_world (ustr_of ''b'') [example_paper ''x'' ''First'' ''S''])
        (ustr_of ''a'') [example_paper ''y'' ''Other'' ''S''])
     PAPER_DIR [''a'', ''b'']
   \<and> probe_item
       (save_papers_to_file sample_db NoFault
          (save_papers_to_file sample_db NoFault example_world (ustr_of ''b'') [example_paper ''x'' ''First'' ''S''])
          (ustr_of ''a'') [example_paper ''y'' ''Other'' ''S''])
       ''a'' ''x'' = Inr None
   \<and> probe_item
       (save_papers_to_file sample_db NoFault
          (save_papers_to_file sample_db NoFault example_world (ustr_of ''b'') [example_paper ''x'' ''First'' ''S''])
          (ustr_of ''a'') [example_paper ''y'' ''Other'' ''S''])
       ''b'' ''x'' = Inr (Some (persisted (example_paper ''x'' ''First'' ''S'')))
   \<and> snd (get_paper_info
       (save_papers_to_file sample_db NoFault
          (save_papers_to_file sample_db NoFault example_world (ustr_of ''b'') [example_paper ''x'' ''First'' ''S''])
          (ustr_of ''a'') [example_paper ''y'' ''Other'' ''S''])
       [''a'', ''b''] ''x'')
      = persisted (example_paper ''x'' ''First'' ''S'')
   \<and> snd (get_paper_info
       (save_papers_to_file sample_db NoFault
          (save_papers_to_file sample_db NoFault example_world (ustr_of ''b'') [example_paper ''x'' ''First'' ''S''])
          (ustr_of ''a'') [example_paper ''y'' ''Other'' ''S''])
       [''a'', ''b''] ''z'')
      = JNull
   \<and> listing_of (save_papers_to_file sample_db DumpFault example_world (ustr_of ''a'') [example_paper ''x'' ''First'' ''S''])
       PAPER_DIR [''a'']
   \<and> probe_item (save_papers_to_file sample_db DumpFault example_world (ustr_of ''a'') [example_paper ''x'' ''First'' ''S''])
       ''a'' ''x'' = Inl JSONDecodeError
   \<and> get_paper_info (save_papers_to_file sample_db DumpFault example_world (ustr_of ''a'') [example_paper ''x'' ''First'' ''S''])
       [''a''] ''x''
      = (st_error (ErrorRetrieving JSONDecodeError)
           (save_papers_to_file sample_db DumpFault example_world (ustr_of ''a'') [example_paper ''x'' ''First'' ''S'']),
         JNull)"
proof -
  let ?g = "save_papers_to_file sample_db DumpFault example_world (ustr_of ''a'') [example_paper ''x'' ''First'' ''S'']"
  have gl: "listing_of ?g PAPER_DIR [''a'']"
    by (rule example_listing_broken)
  have gp: "probe_item ?g ''a'' ''x'' = Inl JSONDecodeError"
    by code_simp
  from first_listed_match [OF gl, of "[]" "''a''" "[]" "''x''" _ JSONDecodeError] gp
  have 3: "get_paper_info ?g [''a''] ''x'' = (st_error (ErrorRetrieving JSONDecodeError) ?g, JNull)"
    by simp
  let ?w = "save_papers_to_file sample_db NoFault
          (save_papers_to_file sample_db NoFault example_world (ustr_of ''b'') [example_paper ''x'' ''First'' ''S''])
          (ustr_of ''a'') [example_paper ''y'' ''Other'' ''S'']"
  have l: "listing_of ?w PAPER_DIR [''a'', ''b'']"
    by (rule example_listing_b_a)
  have pa: "probe_item ?w ''a'' ''x'' = Inr None"
    by code_simp
  have pb: "probe_item ?w ''b'' ''x'' = Inr (Some (persisted (example_paper ''x'' ''First'' ''S'')))"
    by code_simp
  have za: "probe_item ?w ''a'' ''z'' = Inr None" and zb: "probe_item ?w ''b'' ''z'' = Inr None"
    by code_simp+
  have sp: "[''a'', ''b''] = [''a''] @ ''b'' # []" by simp
  from first_listed_match [OF l, of "[''a'']" "''b''" "[]" "''x''"] pa pb
  have 1: "get_paper_info ?w [''a'', ''b''] ''x'' = (?w, persisted (example_paper ''x'' ''First'' ''S''))"
    by simp
  from first_listed_match [OF l, of _ _ _ "''z''"] za zb
  have 2: "get_paper_info ?w [''a'', ''b''] ''z'' = (?w, JNull)"
    by simp
  from l pa pb 1 2 gl gp 3 show ?thesis by simp
qed




text \<open>
  C6. Every item of the bucket dictionary is the identifier of a record of the sequence
  with that record's persisted value, and every record's identifier is a key. The
  persisted value is a dictionary with exactly the keys title, authors, summary, pdf_url
  and published, holding the record's fields; categories and primary_category are not
  among its keys. A save that raises nothing leaves that dictionary in the topic's file.
\<close>

theorem persisted_projection:
  "(\<forall>(k, v)\<in>set (build_papers_info ps). \<exists>p\<in>set ps. k = id_key p \<and> v = persisted p)
   \<and> (\<forall>p\<in>set ps. id_key p \<in> fst ` set (build_papers_info ps))
   \<and> (\<exists>d. persisted p = JDict d
          \<and> map fst d = [''title'', ''authors'', ''summary'', ''pdf_url'', ''published''])
   \<and> py_getitem (persisted p) ''title'' = Inr (JStr (title p))
   \<and> py_getitem (persisted p) ''authors'' = Inr (JList (map JStr (authors p)))
   \<and> py_getitem (persisted p) ''summary'' = Inr (JStr (summary p))
   \<and> py_getitem (persisted p) ''pdf_url'' = Inr (JStr (pdf_url p))
   \<and> py_getitem (persisted p) ''published'' = Inr (JStr (published p))
   \<and> py_contains (persisted p) ''categories'' = Inr False
   \<and> py_contains (persisted p) ''primary_category'' = Inr False
   \<and> (snd (save_body db flt w topic ps) = None \<longrightarrow>
        json_load (fst (save_body db flt w topic ps)) (topic_file_path db topic)
          = Inr (JDict (build_papers_info ps)))"
proof -
  have 1: "\<forall>(k, v)\<in>set (build_papers_info ps). \<exists>p\<in>set ps. k = id_key p \<and> v = persisted p"
    using set_build [of "[]" ps] unfolding build_papers_info_def by auto
  have 2: "\<forall>p\<in>set ps. id_key p \<in> fst ` set (build_papers_info ps)"
    unfolding build_papers_info_def dom_build by simp
  have 3: "\<exists>d. persisted p = JDict d
          \<and> map fst d = [''title'', ''authors'', ''summary'', ''pdf_url'', ''published'']"
    by (simp add: persisted_def)
  have 4: "py_getitem (persisted p) ''title'' = Inr (JStr (title p))"
    "py_getitem (persisted p) ''authors'' = Inr (JList (map JStr (authors p)))"
    "py_getitem (persisted p) ''summary'' = Inr (JStr (summary p))"
    "py_getitem (persisted p) ''pdf_url'' = Inr (JStr (pdf_url p))"
    "py_getitem (persisted p) ''published'' = Inr (JStr (published p))"
    "py_contains (persisted p) ''categories'' = Inr False"
    "py_contains (persisted p) ''primary_category'' = Inr False"
    by (simp_all add: persisted_def)
  have 5: "snd (save_body db flt w topic ps) = None \<longrightarrow>
        json_load (fst (save_body db flt w topic ps)) (topic_file_path db topic)
          = Inr (JDict (build_papers_info ps))"
    using save_body_ok(1) by blast
  from 1 2 3 4 5 show ?thesis by blast
qed

theorem persisted_projection_witness:
  "(''1'', persisted (example_paper ''1'' ''T'' ''S''))
      \<in> set (build_papers_info [example_paper ''1'' ''T'' ''S''])
   \<and> example_paper ''1'' ''T'' ''S'' \<in> set [example_paper ''1'' ''T'' ''S'']
   \<and> id_key (example_paper ''1'' ''T'' ''S'')
        \<in> fst ` set (build_papers_info [example_paper ''1'' ''T'' ''S''])
   \<and> snd (save_body sample_db NoFault example_world (ustr_of ''a'') [example_paper ''1'' ''T'' ''S'']) = None
   \<and> json_load (fst (save_body sample_db NoFault example_world (ustr_of ''a'') [example_paper ''1'' ''T'' ''S'']))
        (topic_file_path sample_db (ustr_of ''a''))
       = Inr (JDict [(''1'', persisted (example_paper ''1'' ''T'' ''S''))])"
proof -
  let ?p = "example_paper ''1'' ''T'' ''S''"
  have b: "build_papers_info [?p] = [(''1'', persisted ?p)]"
    by (simp add: build_papers_info_def dict_setitem_def example_paper_def)
  note t = persisted_projection [of "[?p]" ?p sample_db NoFault example_world "ustr_of ''a''"]
  from t example_save_a b show ?thesis by simp
qed

text \<open>
  C7. The builder takes the first three records of the sequence, its limit. For every
  record it takes, the context contains the summary line made of exactly the first 200
  characters of the summary followed by the ellipsis marker; when the summary is not
  longer than 200 characters, these are the full summary, which so appears untruncated.
  The context is the header followed by the entries of the records taken, each entry the
  title line and that summary line, and the records past the third do not change it.
\<close>

theorem context_truncates_summary:
  "p \<in> set (take 3 ps) \<Longrightarrow>
     sublist (''  Summary: '' @ take 200 (summary p) @ ''...'' @ nl @ nl) (build_context ps)
     \<and> (length (summary p) \<le> 200 \<longrightarrow>
          sublist (''  Summary: '' @ summary p @ ''...'' @ nl @ nl) (build_context ps))
     \<and> build_context ps
         = (''Here are some recent papers I found:'' @ nl @ nl)
           @ concat (map context_entry (take 3 ps))
     \<and> context_entry p
         = (''- '' @ title p @ '' by '' @ authors_str p @ nl)
           @ (''  Summary: '' @ take 200 (summary p) @ ''...'' @ nl @ nl)
     \<and> build_context ps = build_context (take 3 ps)"
proof -
  assume a: "p \<in> set (take 3 ps)"
  then have ne: "ps \<noteq> []" by auto
  have 1: "sublist (''  Summary: '' @ take 200 (summary p) @ ''...'' @ nl @ nl) (build_context ps)"
    using a by (rule entry_in_context)
  have 2: "length (summary p) \<le> 200 \<longrightarrow>
          sublist (''  Summary: '' @ summary p @ ''...'' @ nl @ nl) (build_context ps)"
  proof
    assume "length (summary p) \<le> 200"
    then have "take 200 (summary p) = summary p" by simp
    with 1 show "sublist (''  Summary: '' @ summary p @ ''...'' @ nl @ nl) (build_context ps)"
      by simp
  qed
  have 3: "build_context ps
         = (''Here are some recent papers I found:'' @ nl @ nl)
           @ concat (map context_entry (take 3 ps))"
    using ne by (rule build_context_eq)
  have 4: "context_entry p
         = (''- '' @ title p @ '' by '' @ authors_str p @ nl)
           @ (''  Summary: '' @ take 200 (summary p) @ ''...'' @ nl @ nl)"
    by (simp add: context_entry_def)
  have 5: "build_context ps = build_context (take 3 ps)"
    using ne by (cases ps) (simp_all add: build_context_def)
  from 1 2 3 4 5 show ?thesis by blast
qed

theorem context_truncates_summary_witness:
  "example_paper ''1'' ''A'' (replicate 201 CHR ''z'')
       \<in> set (take 3 [example_paper ''1'' ''A'' (replicate 201 CHR ''z''), example_paper ''2'' ''B'' ''short''])
   \<and> sublist (''  Summary: '' @ replicate 200 CHR ''z'' @ ''...'' @ nl @ nl)
        (build_context [example_paper ''1'' ''A'' (replicate 201 CHR ''z''), example_paper ''2'' ''B'' ''short''])
   \<and> example_paper ''2'' ''B'' ''short''
       \<in> set (take 3 [example_paper ''1'' ''A'' (replicate 201 CHR ''z''), example_paper ''2'' ''B'' ''short''])
   \<and> length (summary (example_paper ''2'' ''B'' ''short'')) \<le> 200
   \<and> sublist (''  Summary: '' @ ''short'' @ ''...'' @ nl @ nl)
        (build_context [example_paper ''1'' ''A'' (replicate 201 CHR ''z''), example_paper ''2'' ''B'' ''short''])"
proof -
  let ?a = "example_paper ''1'' ''A'' (replicate 201 CHR ''z'')"
  let ?b = "example_paper ''2'' ''B'' ''short''"
  have ha: "?a \<in> set (take 3 [?a, ?b])" by simp
  have hb: "?b \<in> set (take 3 [?a, ?b])" by simp
  have lb: "length (summary ?b) \<le> 200" by (simp add: example_paper_def)
  have sa: "take 200 (summary ?a) = replicate 200 CHR ''z''" by (simp add: example_paper_def)
  have sb: "summary ?b = ''short''" by (simp add: example_paper_def)
  from context_truncates_summary [OF ha, THEN conjunct1] sa
  have 1: "sublist (''  Summary: '' @ replicate 200 CHR ''z'' @ ''...'' @ nl @ nl) (build_context [?a, ?b])"
    by simp
  from context_truncates_summary [OF hb, THEN conjunct2, THEN conjunct1] lb sb
  have 2: "sublist (''  Summary: '' @ ''short'' @ ''...'' @ nl @ nl) (build_context [?a, ?b])"
    by simp
  from ha hb lb 1 2 show ?thesis by blast
qed

text \<open>
  C8. Whatever the user does in the chat tab (submissions whose chat call succeeds or
  fails, clearing the log), starting from a log that alternates (the empty log of a new
  session does), the log keeps even length and alternates user, assistant, user,
  assistant, starting with the user. A submission appends exactly the user's turn and
  one assistant turn. When no client is configured, when the call raises, or when the
  response has no content block, the assistant's turn holds the failure message, which
  is not empty.
\<close>

theorem conversation_alternates:
  "alternating (chat_history s) \<Longrightarrow>
     alternating (chat_history (foldl chat_step s evs))
     \<and> even (length (chat_history (foldl chat_step s evs)))
     \<and> (prompt \<noteq> [] \<longrightarrow>
          chat_history (chat_input anthropic s prompt)
            = chat_history s
              @ [\<lparr>role = ''user'', content = prompt\<rparr>,
                 \<lparr>role = ''assistant'',
                  content = chat_with_claude anthropic prompt (build_context (papers_data s))\<rparr>])
     \<and> chat_with_claude None prompt context = not_configured_message
     \<and> (create (full_message context prompt) = Inl e \<longrightarrow>
          chat_with_claude (Some create) prompt context = error_calling_claude e)
     \<and> (create (full_message context prompt) = Inr [] \<longrightarrow>
          chat_with_claude (Some create) prompt context
            = error_calling_claude ''list index out of range'')
     \<and> not_configured_message \<noteq> [] \<and> error_calling_claude e \<noteq> []"
proof -
  assume a: "alternating (chat_history s)"
  have 1: "alternating (chat_history (foldl chat_step s evs))"
    using a by (rule run_alternating)
  have 2: "even (length (chat_history (foldl chat_step s evs)))"
    using 1 by (rule alternating_even)
  have 3: "prompt \<noteq> [] \<longrightarrow>
          chat_history (chat_input anthropic s prompt)
            = chat_history s
              @ [\<lparr>role = ''user'', content = prompt\<rparr>,
                 \<lparr>role = ''assistant'',
                  content = chat_with_claude anthropic prompt (build_context (papers_data s))\<rparr>]"
    by (simp add: chat_input_history)
  have 4: "chat_with_claude None prompt context = not_configured_message"
    by (simp add: chat_with_claude_def)
  have 5: "create (full_message context prompt) = Inl e \<longrightarrow>
          chat_with_claude (Some create) prompt context = error_calling_claude e"
    by (simp add: chat_with_claude_def)
  have 6: "create (full_message context prompt) = Inr [] \<longrightarrow>
          chat_with_claude (Some create) prompt context
            = error_calling_claude ''list index out of range''"
    by (simp add: chat_with_claude_def)
  have 7: "not_configured_message \<noteq> []" "error_calling_claude e \<noteq> []"
    by (simp_all add: not_configured_message_def error_calling_claude_def cross_mark_def)
  from 1 2 3 4 5 6 7 show ?thesis by blast
qed

theorem conversation_alternates_witness:
  "alternating (chat_history initial_session)
   \<and> alternating (chat_history (foldl chat_step initial_session
        [Submit (Some (\<lambda>m. Inl ''timeout'')) ''hi'', Submit None ''again'']))
   \<and> ''hi'' \<noteq> []
   \<and> chat_history (chat_input (Some (\<lambda>m. Inl ''timeout'')) initial_session ''hi'')
        = [\<lparr>role = ''user'', content = ''hi''\<rparr>,
           \<lparr>role = ''assistant'', content = error_calling_claude ''timeout''\<rparr>]
   \<and> map role (chat_history (foldl chat_step initial_session
        [Submit (Some (\<lambda>m. Inl ''timeout'')) ''hi'', Submit None ''again'']))
        = [''user'', ''assistant'', ''user'', ''assistant'']"
proof -
  have h: "alternating (chat_history initial_session)"
    by (simp add: initial_session_def)
  have n: "''hi'' \<noteq> []" by simp
  have f: "(\<lambda>m. Inl ''timeout'' :: string + string list) (full_message [] ''hi'') = Inl ''timeout''"
    by simp
  note t = conversation_alternates [OF h,
      of "[Submit (Some (\<lambda>m. Inl ''timeout'')) ''hi'', Submit None ''again'']"
         "''hi''" "Some (\<lambda>m. Inl ''timeout'')" "[]" "\<lambda>m. Inl ''timeout''" "''timeout''"]
  have c: "chat_history (chat_input (Some (\<lambda>m. Inl ''timeout'')) initial_session ''hi'')
        = [\<lparr>role = ''user'', content = ''hi''\<rparr>,
           \<lparr>role = ''assistant'', content = error_calling_claude ''timeout''\<rparr>]"
    using t n f by (simp add: initial_session_def build_context_def)
  have r: "map role (chat_history (foldl chat_step initial_session
        [Submit (Some (\<lambda>m. Inl ''timeout'')) ''hi'', Submit None ''again'']))
        = [''user'', ''assistant'', ''user'', ''assistant'']"
    by (simp add: initial_session_def chat_input_def Let_def)
  from h t c r show ?thesis by simp
qed

text \<open>
  C9. For the empty sequence of records the context builder returns the empty string: the
  header is only written when there is at least one record.
\<close>

theorem context_of_no_records: "build_context [] = []"
  by (simp add: build_context_def)

text \<open>
  C10. The bucket dictionary built from a sequence of records has each identifier of
  the sequence exactly once as a key, and under it the persisted value of the last
  record of the sequence that carries it: a later record with the same identifier
  silently replaces the earlier one. After a save that raises nothing, that is what the
  topic's bucket answers for the identifier.
\<close>

theorem last_duplicate_wins:
  "distinct (map fst (build_papers_info ps))
   \<and> fst ` set (build_papers_info ps) = id_key ` set ps
   \<and> (\<forall>p\<in>set ps. map_of (build_papers_info ps) (id_key p)
          = Some (persisted (last (filter (\<lambda>q. id_key q = id_key p) ps))))
   \<and> (snd (save_body db flt w topic ps) = None \<longrightarrow>
        (\<forall>p\<in>set ps. probe_item (fst (save_body db flt w topic ps)) (topic_dir db topic) (id_key p)
           = Inr (Some (persisted (last (filter (\<lambda>q. id_key q = id_key p) ps))))))"
proof -
  have 1: "distinct (map fst (build_papers_info ps))"
    unfolding build_papers_info_def by (rule distinct_build) simp
  have 2: "fst ` set (build_papers_info ps) = id_key ` set ps"
    unfolding build_papers_info_def dom_build by simp
  have 3: "\<forall>p\<in>set ps. map_of (build_papers_info ps) (id_key p)
          = Some (persisted (last (filter (\<lambda>q. id_key q = id_key p) ps)))"
    by (simp add: map_of_papers_info)
  have 4: "snd (save_body db flt w topic ps) = None \<longrightarrow>
        (\<forall>p\<in>set ps. probe_item (fst (save_body db flt w topic ps)) (topic_dir db topic) (id_key p)
           = Inr (Some (persisted (last (filter (\<lambda>q. id_key q = id_key p) ps)))))"
    by (simp add: save_body_ok(2) map_of_papers_info)
  from 1 2 3 4 show ?thesis by blast
qed

theorem last_duplicate_wins_witness:
  "example_paper ''x'' ''First'' ''S''
      \<in> set [example_paper ''x'' ''First'' ''S'', example_paper ''x'' ''Second'' ''S'']
   \<and> map_of (build_papers_info
         [example_paper ''x'' ''First'' ''S'', example_paper ''x'' ''Second'' ''S'']) ''x''
       = Some (persisted (example_paper ''x'' ''Second'' ''S''))
   \<and> snd (save_body sample_db NoFault example_world (ustr_of ''a'')
         [example_paper ''x'' ''First'' ''S'', example_paper ''x'' ''Second'' ''S'']) = None
   \<and> probe_item (fst (save_body sample_db NoFault example_world (ustr_of ''a'')
         [example_paper ''x'' ''First'' ''S'', example_paper ''x'' ''Second'' ''S'']))
         (topic_dir sample_db (ustr_of ''a'')) ''x''
       = Inr (Some (persisted (example_paper ''x'' ''Second'' ''S'')))"
proof -
  let ?a = "example_paper ''x'' ''First'' ''S''"
  let ?b = "example_paper ''x'' ''Second'' ''S''"
  have i: "id_key ?a = ''x''" "id_key ?b = ''x''"
    by (simp_all add: example_paper_def)
  have m: "?a \<in> set [?a, ?b]" by simp
  note t = last_duplicate_wins [of "[?a, ?b]" sample_db NoFault example_world "ustr_of ''a''"]
  from t have 3: "map_of (build_papers_info [?a, ?b]) (id_key ?a)
       = Some (persisted (last (filter (\<lambda>q. id_key q = id_key ?a) [?a, ?b])))"
    using m by blast
  from t example_save_twice have 4: "probe_item (fst (save_body sample_db NoFault example_world (ustr_of ''a'') [?a, ?b]))
         (topic_dir sample_db (ustr_of ''a'')) (id_key ?a)
       = Inr (Some (persisted (last (filter (\<lambda>q. id_key q = id_key ?a) [?a, ?b]))))"
    using m by blast
  have l: "last (filter (\<lambda>q. id_key q = id_key ?a) [?a, ?b]) = ?b"
    by (simp add: i)
  from m 3 4 l i example_save_twice show ?thesis by simp
qed

end
